theory Spec2Isabelle
  imports Main "HOL-Library.Extended_Nat" "HOL-Library.Word"
begin

section \<open>JavaScript values as the XML parser delivers them\<close>

text \<open>
  The client (\<^verbatim>\<open>src/webdav-client.ts\<close>) never looks at XML text: it hands the body to the
  XML parser and walks the generic value tree that comes back (typed \<^verbatim>\<open>any\<close>).  The
  tree is modelled as a datatype of JavaScript values.  An object is an association list
  read with \<open>map_of\<close>.  A string is a list of characters with codes below 256.  A number
  is an integer from \<open>- 2\<^sup>5\<^sup>3\<close> to \<open>2\<^sup>5\<^sup>3 - 1\<close>, read with \<open>sint\<close>: these are numbers
  a JavaScript double holds exactly and prints in plain decimal notation (the parser turns
  numeric element text into numbers).  Fractions, numbers of larger magnitude and text
  beyond code 255 are outside the model.
\<close>

datatype jsval =
    JUndefined
  | JNull
  | JBool bool
  | JNum "54 word"
  | JStr string
  | JArr "jsval list"
  | JObj "(string \<times> jsval) list"

text \<open>
  Everything the client can throw or catch.  \<open>WebDAVError message statusCode statusText
  response\<close> is the class of the same name; \<open>AxiosError\<close> is what
  \<^verbatim>\<open>axios.isAxiosError\<close> recognises, with the HTTP status, status text and body of the
  response when one was received; \<open>NodeOperationError\<close> is the host's error raised by the
  node; \<open>Error\<close> stands for every other JavaScript error (\<^verbatim>\<open>Error\<close>,
  \<^verbatim>\<open>TypeError\<close>, \<^verbatim>\<open>URIError\<close>) with its message.  The message texts of the source are
  Cyrillic; the model carries English renderings of them.
\<close>

datatype js_error =
    WebDAVError string "nat option" "string option" "string option"
  | AxiosError string "(nat \<times> string \<times> string) option"
  | NodeOperationError string
  | Error string

fun message :: "js_error \<Rightarrow> string" where
  "message (WebDAVError m _ _ _) = m"
| "message (AxiosError m _) = m"
| "message (NodeOperationError m) = m"
| "message (Error m) = m"

fun statusCode :: "js_error \<Rightarrow> nat option" where
  "statusCode (WebDAVError _ c _ _) = c"
| "statusCode _ = None"

definition bind :: "js_error + 'a \<Rightarrow> ('a \<Rightarrow> js_error + 'b) \<Rightarrow> js_error + 'b" where
  "bind m f = (case m of Inl e \<Rightarrow> Inl e | Inr v \<Rightarrow> f v)"

subsection \<open>Truthiness, property access, string conversion\<close>

fun truthy :: "jsval \<Rightarrow> bool" where
  "truthy JUndefined = False"
| "truthy JNull = False"
| "truthy (JBool b) = b"
| "truthy (JNum n) = (n \<noteq> 0)"
| "truthy (JStr s) = (s \<noteq> [])"
| "truthy (JArr _) = True"
| "truthy (JObj _) = True"

text \<open>\<^verbatim>\<open>a || b\<close>\<close>

definition js_or :: "jsval \<Rightarrow> jsval \<Rightarrow> jsval" where
  "js_or a b = (if truthy a then a else b)"

text \<open>
  \<^verbatim>\<open>obj[key]\<close>: a \<^verbatim>\<open>TypeError\<close> on \<^verbatim>\<open>undefined\<close> and \<^verbatim>\<open>null\<close>, the stored value
  on an object, \<^verbatim>\<open>undefined\<close> for a key the object lacks and on every primitive and
  array (the keys the client asks for are element names, never \<^verbatim>\<open>length\<close> or an index).
  The message of the \<^verbatim>\<open>TypeError\<close> is the one of the V8 engine, which names the key in
  single quotes.
\<close>

definition reading :: "string \<Rightarrow> string" where
  "reading k = '' (reading '' @ [CHR 0x27] @ k @ [CHR 0x27] @ '')''"

fun js_get :: "jsval \<Rightarrow> string \<Rightarrow> js_error + jsval" where
  "js_get JUndefined k = Inl (Error (''Cannot read properties of undefined'' @ reading k))"
| "js_get JNull k = Inl (Error (''Cannot read properties of null'' @ reading k))"
| "js_get (JObj kvs) k = (case map_of kvs k of None \<Rightarrow> Inr JUndefined | Some v \<Rightarrow> Inr v)"
| "js_get _ k = Inr JUndefined"

text \<open>\<^verbatim>\<open>Array.isArray(x) ? x : [x]\<close>\<close>

fun as_array :: "jsval \<Rightarrow> jsval list" where
  "as_array (JArr xs) = xs"
| "as_array v = [v]"

text \<open>\<^verbatim>\<open>s.includes(p)\<close> on strings.\<close>

fun str_includes :: "string \<Rightarrow> string \<Rightarrow> bool" where
  "str_includes [] p = (p = [])"
| "str_includes (c # s) p = (take (length p) (c # s) = p \<or> str_includes s p)"

definition startsWith :: "string \<Rightarrow> string \<Rightarrow> bool" where
  "startsWith s p = (take (length p) s = p)"

definition endsWith :: "string \<Rightarrow> string \<Rightarrow> bool" where
  "endsWith s p = (length p \<le> length s \<and> drop (length s - length p) s = p)"

text \<open>
  \<^verbatim>\<open>status.includes('200')\<close> for a truthy \<^verbatim>\<open>status\<close>: substring search on a string,
  membership on an array, and a \<^verbatim>\<open>TypeError\<close> on a number, a boolean or an object,
  which have no such method.
\<close>

fun js_includes :: "jsval \<Rightarrow> string \<Rightarrow> js_error + bool" where
  "js_includes (JStr s) p = Inr (str_includes s p)"
| "js_includes (JArr xs) p = Inr (JStr p \<in> set xs)"
| "js_includes _ p = Inl (Error ''status.includes is not a function'')"

text \<open>
  Decimal digits of a natural number, and \<^verbatim>\<open>String(x)\<close>; a number of the model is
  written in plain decimal notation, with a minus sign when negative.
\<close>

definition digit_char :: "nat \<Rightarrow> char" where
  "digit_char d = char_of (48 + d)"

fun show_nat :: "nat \<Rightarrow> string" where
  "show_nat n = (if n < 10 then [digit_char n] else show_nat (n div 10) @ [digit_char (n mod 10)])"

declare show_nat.simps [simp del]

definition show_int :: "int \<Rightarrow> string" where
  "show_int i = (if i < 0 then CHR ''-'' # show_nat (nat (- i)) else show_nat (nat i))"

fun join_comma :: "string list \<Rightarrow> string" where
  "join_comma [] = []"
| "join_comma [s] = s"
| "join_comma (s # t) = s @ '','' @ join_comma t"

fun js_ToString :: "jsval \<Rightarrow> string" where
  "js_ToString JUndefined = ''undefined''"
| "js_ToString JNull = ''null''"
| "js_ToString (JBool b) = (if b then ''true'' else ''false'')"
| "js_ToString (JNum n) = show_int (sint n)"
| "js_ToString (JStr s) = s"
| "js_ToString (JArr xs) =
     join_comma (map (\<lambda>x. if x = JUndefined \<or> x = JNull then [] else js_ToString x) xs)"
| "js_ToString (JObj _) = ''[object Object]''"

subsection \<open>\<^verbatim>\<open>parseInt(s, 10)\<close>\<close>

text \<open>
  A JavaScript number that \<^verbatim>\<open>parseInt\<close> can return: \<^verbatim>\<open>NaN\<close>, an integer that a double
  holds exactly, or an infinity (the model does not tell \<open>-0\<close> from \<open>0\<close>).
\<close>

datatype jsnum = NaN | Num int | Infinity | NegInfinity

fun negate :: "jsnum \<Rightarrow> jsnum" where
  "negate NaN = NaN"
| "negate (Num n) = Num (- n)"
| "negate Infinity = NegInfinity"
| "negate NegInfinity = Infinity"

text \<open>
  The double nearest to a natural number.  Up to \<open>2\<^sup>5\<^sup>3\<close> every integer is a double.
  Above, a number of \<open>53 + e\<close> bits keeps its 53 leading bits \<open>q\<close>; the \<open>e\<close> bits \<open>r\<close>
  cut off round \<open>q\<close> up when they are more than half a unit of \<open>q\<close>, or exactly half
  with \<open>q\<close> odd (round to nearest, ties to even); a result of \<open>2\<^sup>1\<^sup>0\<^sup>2\<^sup>4\<close> or more is
  the infinity.
\<close>

fun bit_length :: "nat \<Rightarrow> nat" where
  "bit_length n = (if n = 0 then 0 else Suc (bit_length (n div 2)))"

declare bit_length.simps [simp del]

definition round_to_double :: "nat \<Rightarrow> jsnum" where
  "round_to_double n =
     (if n \<le> 2 ^ 53 then Num (int n)
      else (let e = bit_length n - 53;
                q = n div 2 ^ e;
                r = n mod 2 ^ e;
                m = (if 2 ^ (e - 1) < r \<or> (r = 2 ^ (e - 1) \<and> odd q) then q + 1 else q)
            in if 2 ^ 1024 \<le> m * 2 ^ e then Infinity else Num (int (m * 2 ^ e))))"

text \<open>
  \<^verbatim>\<open>parseInt\<close> skips leading white space (among the characters below 256: tab, line
  feed, vertical tab, form feed, carriage return, space and no-break space), reads an
  optional sign and then the longest run of decimal digits; with no digit there the result
  is \<^verbatim>\<open>NaN\<close>, otherwise it is the double nearest to the integer written.
\<close>

definition is_space :: "char \<Rightarrow> bool" where
  "is_space c =
     (c \<in> set [CHR 0x09, CHR 0x0A, CHR 0x0B, CHR 0x0C, CHR 0x0D, CHR 0x20, CHR 0xA0])"

definition is_digit :: "char \<Rightarrow> bool" where
  "is_digit c = ((48 :: nat) \<le> of_char c \<and> (of_char c :: nat) \<le> 57)"

definition digits_value :: "string \<Rightarrow> nat" where
  "digits_value ds = foldl (\<lambda>acc c. 10 * acc + ((of_char c :: nat) - 48)) 0 ds"

definition parseInt :: "string \<Rightarrow> jsnum" where
  "parseInt s =
    (let t = dropWhile is_space s;
         neg = (t \<noteq> [] \<and> hd t = CHR ''-'');
         u = (if t \<noteq> [] \<and> (hd t = CHR ''-'' \<or> hd t = CHR ''+'') then tl t else t);
         ds = takeWhile is_digit u
     in if ds = [] then NaN
        else if neg then negate (round_to_double (digits_value ds))
        else round_to_double (digits_value ds))"

section \<open>The host environment\<close>

text \<open>
  Library functions the client calls and this repository does not contain are fields of
  an environment: the XML parser (\<open>Inl\<close> is the message of the error it throws),
  \<^verbatim>\<open>decodeURIComponent\<close> (\<open>Inl\<close> is its \<^verbatim>\<open>URIError\<close>), \<^verbatim>\<open>path.basename\<close>,
  \<^verbatim>\<open>path.dirname\<close>, \<^verbatim>\<open>new URL(path, base).toString()\<close> (\<open>None\<close> when the constructor
  throws) and \<^verbatim>\<open>new Date().toISOString()\<close>.
\<close>

record env =
  xml_parse :: "string \<Rightarrow> string + jsval"
  decodeURIComponent :: "string \<Rightarrow> string + string"
  path_basename :: "string \<Rightarrow> string"
  path_dirname :: "string \<Rightarrow> string"
  new_URL :: "string \<Rightarrow> string \<Rightarrow> string option"
  now_ISO :: string

section \<open>Multistatus parsing and namespace normalisation\<close>

text \<open>The interface \<^verbatim>\<open>WebDAVResponse\<close> as \<^verbatim>\<open>normalizeWebDAVResponse\<close> fills it.\<close>

record dav_prop =
  getcontentlength :: jsval
  getlastmodified :: jsval
  getcontenttype :: jsval
  getetag :: jsval
  resourcetype :: jsval
  displayname :: jsval

record dav_propstat =
  props :: dav_prop
  status :: jsval

record WebDAVResponse =
  href :: string
  propstat :: dav_propstat

text \<open>
  \<^verbatim>\<open>getField(obj, ...keys)\<close>: the first key whose value is not \<^verbatim>\<open>undefined\<close>.
\<close>

fun getField :: "jsval \<Rightarrow> string list \<Rightarrow> js_error + jsval" where
  "getField obj [] = Inr JUndefined"
| "getField obj (key # keys) =
     bind (js_get obj key) (\<lambda>v. if v \<noteq> JUndefined then Inr v else getField obj keys)"

text \<open>The three spellings a field is looked up under, in the order of the source.\<close>

definition spellings :: "string \<Rightarrow> string list" where
  "spellings n = [''d:'' @ n, ''D:'' @ n, n]"

text \<open>
  \<^verbatim>\<open>propstatArray.find(ps => { const status = getField(ps, ...); return status &&
  status.includes('200'); })\<close>: the callback, then the search, which stops at the first
  block the callback accepts and passes on whatever the callback throws.
\<close>

definition is_success :: "jsval \<Rightarrow> js_error + bool" where
  "is_success ps =
     bind (getField ps (spellings ''status''))
       (\<lambda>st. if truthy st then js_includes st ''200'' else Inr False)"

fun find_success :: "jsval list \<Rightarrow> js_error + jsval" where
  "find_success [] = Inr JUndefined"
| "find_success (ps # rest) =
     bind (is_success ps) (\<lambda>ok. if ok then Inr ps else find_success rest)"

text \<open>\<^verbatim>\<open>propstatArray[0]\<close>, which is \<^verbatim>\<open>undefined\<close> on an empty array.\<close>

definition first_or_undefined :: "jsval list \<Rightarrow> jsval" where
  "first_or_undefined xs = (case xs of [] \<Rightarrow> JUndefined | x # _ \<Rightarrow> x)"

definition successPropstat :: "jsval \<Rightarrow> js_error + jsval" where
  "successPropstat propstat_v =
     (let propstatArray = as_array propstat_v
      in bind (find_success propstatArray)
           (\<lambda>found. Inr (js_or found (first_or_undefined propstatArray))))"

text \<open>
  \<^verbatim>\<open>normalizeWebDAVResponse\<close> after the block is chosen: the properties are read
  from the block's \<^verbatim>\<open>prop\<close>, each under its own three spellings, the address is
  decoded, and the status defaults to a success line.
\<close>

definition extract_record :: "env \<Rightarrow> jsval \<Rightarrow> jsval \<Rightarrow> js_error + WebDAVResponse" where
  "extract_record E href_v sp =
     bind (getField sp (spellings ''prop'')) (\<lambda>prop_v.
     let p = js_or prop_v (JObj []) in
     bind (case decodeURIComponent E (js_ToString (js_or href_v (JStr [])))
           of Inl m \<Rightarrow> Inl (Error m) | Inr s \<Rightarrow> Inr s) (\<lambda>h.
     bind (getField p (spellings ''getcontentlength'')) (\<lambda>f1.
     bind (getField p (spellings ''getlastmodified'')) (\<lambda>f2.
     bind (getField p (spellings ''getcontenttype'')) (\<lambda>f3.
     bind (getField p (spellings ''getetag'')) (\<lambda>f4.
     bind (getField p (spellings ''resourcetype'')) (\<lambda>f5.
     bind (getField p (spellings ''displayname'')) (\<lambda>f6.
     bind (getField sp (spellings ''status'')) (\<lambda>st.
     Inr \<lparr> href = h,
           propstat = \<lparr> props = \<lparr> getcontentlength = f1, getlastmodified = f2,
                                   getcontenttype = f3, getetag = f4, resourcetype = f5,
                                   displayname = f6 \<rparr>,
                        status = js_or st (JStr ''HTTP/1.1 200 OK'') \<rparr> \<rparr>)))))))))"

definition normalizeWebDAVResponse :: "env \<Rightarrow> jsval \<Rightarrow> js_error + WebDAVResponse" where
  "normalizeWebDAVResponse E response =
     bind (getField response (spellings ''href'')) (\<lambda>href_v.
     bind (getField response (spellings ''propstat'')) (\<lambda>propstat_v.
     bind (successPropstat propstat_v) (\<lambda>sp.
     extract_record E href_v sp)))"

text \<open>\<^verbatim>\<open>responses.map(resp => this.normalizeWebDAVResponse(resp))\<close>, stopping at a throw.\<close>

fun map_normalize :: "env \<Rightarrow> jsval list \<Rightarrow> js_error + WebDAVResponse list" where
  "map_normalize E [] = Inr []"
| "map_normalize E (r # rs) =
     bind (normalizeWebDAVResponse E r) (\<lambda>x. bind (map_normalize E rs) (\<lambda>xs. Inr (x # xs)))"

text \<open>
  The body of the \<^verbatim>\<open>try\<close> block of \<^verbatim>\<open>parseWebDAVResponse\<close>: the XML parser runs,
  then the value tree is read.  Each of the two look-ups is a chain
  \<^verbatim>\<open>obj['d:n'] || obj['D:n'] || obj.n\<close>, which moves on to the next spelling when the
  value found is falsy.
\<close>

definition first_truthy :: "jsval \<Rightarrow> string \<Rightarrow> js_error + jsval" where
  "first_truthy obj n =
     bind (js_get obj (''d:'' @ n)) (\<lambda>v1.
     bind (if truthy v1 then Inr v1 else js_get obj (''D:'' @ n)) (\<lambda>v2.
     if truthy v2 then Inr v2 else js_get obj n))"

definition read_multistatus :: "env \<Rightarrow> jsval \<Rightarrow> js_error + WebDAVResponse list" where
  "read_multistatus E parsed =
     bind (first_truthy parsed ''multistatus'') (\<lambda>multistatus.
     if \<not> truthy multistatus then Inl (Error ''Invalid WebDAV response format'')
     else
     bind (first_truthy multistatus ''response'') (\<lambda>responses.
     map_normalize E (as_array responses)))"

definition parse_body :: "env \<Rightarrow> string \<Rightarrow> js_error + WebDAVResponse list" where
  "parse_body E xmlData =
     bind (case xml_parse E xmlData of Inl m \<Rightarrow> Inl (Error m) | Inr v \<Rightarrow> Inr v)
       (read_multistatus E)"

text \<open>
  \<^verbatim>\<open>parseWebDAVResponse\<close>: whatever the body throws is rethrown as a \<^verbatim>\<open>WebDAVError\<close>
  with no status code, its message prefixed.
\<close>

definition parseWebDAVResponse :: "env \<Rightarrow> string \<Rightarrow> js_error + WebDAVResponse list" where
  "parseWebDAVResponse E xmlData =
     (case parse_body E xmlData of
        Inl e \<Rightarrow> Inl (WebDAVError (''XML parse error: '' @ message e) None None None)
      | Inr rs \<Rightarrow> Inr rs)"

section \<open>Mapping a record to \<^verbatim>\<open>FileInfo\<close>\<close>

datatype file_type = File | Directory

record FileInfo =
  filename :: string
  basename :: jsval
  ftype :: file_type
  fsize :: jsnum
  lastmod :: jsval
  mime :: jsval
  etag :: jsval

text \<open>
  \<^verbatim>\<open>rt.collection !== undefined\<close> and its two prefixed forms; \<^verbatim>\<open>rt\<close> is truthy here,
  so the property access cannot throw.
\<close>

definition has_key :: "jsval \<Rightarrow> string \<Rightarrow> bool" where
  "has_key v k = (case js_get v k of Inl _ \<Rightarrow> False | Inr x \<Rightarrow> x \<noteq> JUndefined)"

definition isDirectory :: "dav_prop \<Rightarrow> bool" where
  "isDirectory p =
     (truthy (resourcetype p) \<and>
      (has_key (resourcetype p) ''collection'' \<or>
       has_key (resourcetype p) ''d:collection'' \<or>
       has_key (resourcetype p) ''D:collection''))"

text \<open>
  \<^verbatim>\<open>webdavResponseToFileInfo\<close>.  The source first asks whether \<^verbatim>\<open>response.propstat\<close> is
  an array; a record built by \<^verbatim>\<open>normalizeWebDAVResponse\<close> holds a single block there, so
  the properties are those of that block.  The size is a JavaScript number, the other
  fields carry whatever value the property had.
\<close>

definition webdavResponseToFileInfo :: "env \<Rightarrow> WebDAVResponse \<Rightarrow> FileInfo" where
  "webdavResponseToFileInfo E response =
     (let p = props (propstat response) in
      \<lparr> filename = href response,
        basename = js_or (js_or (JStr (path_basename E (href response))) (displayname p)) (JStr []),
        ftype = (if isDirectory p then Directory else File),
        fsize = parseInt (js_ToString (js_or (getcontentlength p) (JStr ''0''))),
        lastmod = js_or (getlastmodified p) (JStr (now_ISO E)),
        mime = getcontenttype p,
        etag = getetag p \<rparr>)"

section \<open>Transport\<close>

text \<open>
  A request as the client hands it to the transport: the HTTP method, the URL (relative to
  the base URL), the headers of this call, the payload, and the two body-size limits in
  force for it (the client's configured ones unless the call overrides them).  A payload
  is a buffer or string held in memory, or a readable stream with the bytes it will
  deliver.
\<close>

datatype payload = NoData | Data string | Stream string

fun payload_size :: "payload \<Rightarrow> nat" where
  "payload_size NoData = 0"
| "payload_size (Data s) = length s"
| "payload_size (Stream s) = length s"

record request =
  http_method :: string
  url :: string
  headers :: "(string \<times> string) list"
  data :: payload
  maxBodyLength :: enat
  maxContentLength :: enat

text \<open>
  What comes back for a transmitted request: a response (status, status text, body) or no
  response at all (connection refused, TLS failure, time-out), with the message of the
  failure.  The server and the network together are a function of the requests
  transmitted so far and the current one.
\<close>

datatype reply = Reply nat string string | NoReply string

type_synonym server = "request list \<Rightarrow> request \<Rightarrow> reply"

text \<open>
  Operations run against the list of requests transmitted so far and either return a
  value or throw.
\<close>

type_synonym 'a io = "request list \<Rightarrow> (js_error + 'a) \<times> request list"

definition sreturn :: "'a \<Rightarrow> 'a io" where
  "sreturn v sent = (Inr v, sent)"

definition sthrow :: "js_error \<Rightarrow> 'a io" where
  "sthrow e sent = (Inl e, sent)"

definition sbind :: "'a io \<Rightarrow> ('a \<Rightarrow> 'b io) \<Rightarrow> 'b io" where
  "sbind m f sent = (case m sent of (Inl e, sent') \<Rightarrow> (Inl e, sent') | (Inr v, sent') \<Rightarrow> f v sent')"

text \<open>\<^verbatim>\<open>try { m } catch (error) { h(error) }\<close>\<close>

definition scatch :: "'a io \<Rightarrow> (js_error \<Rightarrow> 'a io) \<Rightarrow> 'a io" where
  "scatch m h sent = (case m sent of (Inl e, sent') \<Rightarrow> h e sent' | (Inr v, sent') \<Rightarrow> (Inr v, sent'))"

text \<open>
  The HTTP transport is the axios library, a dependency of the repository.  What the
  client relies on is written out here.  A request whose payload is larger than its request
  limit (\<^verbatim>\<open>maxBodyLength\<close>) is rejected before anything is sent.  A transmitted request
  whose response body is larger than its response limit (\<^verbatim>\<open>maxContentLength\<close>) rejects
  with an axios error that carries no response; the response to a \<^verbatim>\<open>HEAD\<close> request has
  no body to measure.  Otherwise the request resolves with the response when the status is
  2xx (the default \<^verbatim>\<open>validateStatus\<close>) and rejects with an axios error carrying the
  response when it is not; with no response it rejects with an axios error that has none.
\<close>

definition show_limit :: "enat \<Rightarrow> string" where
  "show_limit n = (case n of enat k \<Rightarrow> show_nat k | \<infinity> \<Rightarrow> ''Infinity'')"

definition axios_request :: "server \<Rightarrow> request \<Rightarrow> (nat \<times> string \<times> string) io" where
  "axios_request S req sent =
     (if maxBodyLength req < enat (payload_size (data req))
      then (Inl (AxiosError ''Request body larger than maxBodyLength limit'' None), sent)
      else (case S sent req of
              NoReply m \<Rightarrow> (Inl (AxiosError m None), sent @ [req])
            | Reply st txt body \<Rightarrow>
                if http_method req \<noteq> ''HEAD'' \<and> maxContentLength req < enat (length body)
                then (Inl (AxiosError (''maxContentLength size of '' @
                                       show_limit (maxContentLength req) @ '' exceeded'') None),
                      sent @ [req])
                else if 200 \<le> st \<and> st < 300 then (Inr (st, txt, body), sent @ [req])
                else (Inl (AxiosError (''Request failed with status code '' @ show_nat st)
                             (Some (st, txt, body))), sent @ [req])))"

section \<open>The client\<close>

record WebDAVClientOptions =
  opt_username :: "string option"
  opt_password :: "string option"
  opt_token :: "string option"
  opt_headers :: "(string \<times> string) list"
  opt_maxBodyLength :: "enat option"
  opt_maxContentLength :: "enat option"

text \<open>
  The state of a \<^verbatim>\<open>WebDAVClient\<close>: the base URL and the configuration its axios instance
  was created with.
\<close>

record client =
  baseURL :: string
  cfg_maxBodyLength :: enat
  cfg_maxContentLength :: enat
  cfg_headers :: "(string \<times> string) list"
  cfg_auth :: "(string \<times> string) option"

text \<open>\<^verbatim>\<open>options.maxBodyLength || 524288000\<close>\<close>

definition or_default :: "enat option \<Rightarrow> enat" where
  "or_default v = (case v of None \<Rightarrow> 524288000 | Some n \<Rightarrow> if n = 0 then 524288000 else n)"

definition nonempty :: "string option \<Rightarrow> bool" where
  "nonempty v = (case v of None \<Rightarrow> False | Some s \<Rightarrow> s \<noteq> [])"

definition WebDAVClient :: "string \<Rightarrow> WebDAVClientOptions \<Rightarrow> client" where
  "WebDAVClient base options =
     (let hs = opt_headers options @ [(''Content-Type'', ''application/octet-stream'')] in
      \<lparr> baseURL = base,
        cfg_maxBodyLength = or_default (opt_maxBodyLength options),
        cfg_maxContentLength = or_default (opt_maxContentLength options),
        cfg_headers =
          (if nonempty (opt_username options) \<and> nonempty (opt_password options) then hs
           else if nonempty (opt_token options)
           then (''Authorization'', ''Bearer '' @ the (opt_token options)) # hs
           else hs),
        cfg_auth =
          (if nonempty (opt_username options) \<and> nonempty (opt_password options)
           then Some (the (opt_username options), the (opt_password options))
           else None) \<rparr>)"

definition createClient :: "string \<Rightarrow> WebDAVClientOptions \<Rightarrow> client" where
  "createClient base options = WebDAVClient base options"

text \<open>A call through the client's axios instance: the configured limits apply.\<close>

definition mk_request :: "client \<Rightarrow> string \<Rightarrow> string \<Rightarrow> (string \<times> string) list \<Rightarrow> payload \<Rightarrow> request" where
  "mk_request c m u hs d =
     \<lparr> http_method = m, url = u, headers = hs, data = d,
       maxBodyLength = cfg_maxBodyLength c, maxContentLength = cfg_maxContentLength c \<rparr>"

subsection \<open>\<^verbatim>\<open>handleError\<close>\<close>

definition status_message :: "nat option \<Rightarrow> string \<Rightarrow> string" where
  "status_message code fallback =
     (if code = Some 401 then ''Authentication failed. Check the credentials.''
      else if code = Some 403 then ''Access denied. Insufficient rights.''
      else if code = Some 404 then ''Resource not found.''
      else if code = Some 405 then ''Method not supported by the server.''
      else if code = Some 409 then ''Conflict. The resource already exists or is locked.''
      else if code = Some 412 then ''Precondition failed.''
      else if code = Some 423 then ''Resource is locked.''
      else if code = Some 507 then ''Insufficient storage on the server.''
      else fallback)"

text \<open>The error \<^verbatim>\<open>handleError(error, context)\<close> throws.\<close>

fun handleError :: "js_error \<Rightarrow> string \<Rightarrow> js_error" where
  "handleError (AxiosError m resp) context =
     WebDAVError (context @ '': '' @ status_message (map_option fst resp) m)
       (map_option fst resp) (map_option (fst \<circ> snd) resp) (map_option (snd \<circ> snd) resp)"
| "handleError e context = WebDAVError (context @ '': '' @ message e) None None None"

text \<open>
  \<^verbatim>\<open>catch (error) { if (error instanceof WebDAVError) throw error;
  this.handleError(error, context); }\<close>
\<close>

fun rethrow :: "string \<Rightarrow> js_error \<Rightarrow> 'a io" where
  "rethrow context (WebDAVError m c t r) = sthrow (WebDAVError m c t r)"
| "rethrow context e = sthrow (handleError e context)"

subsection \<open>\<^verbatim>\<open>exists\<close>\<close>

fun response_status :: "js_error \<Rightarrow> nat option" where
  "response_status (AxiosError _ resp) = map_option fst resp"
| "response_status _ = None"

fun isAxiosError :: "js_error \<Rightarrow> bool" where
  "isAxiosError (AxiosError _ _) = True"
| "isAxiosError _ = False"

definition exists :: "server \<Rightarrow> client \<Rightarrow> string \<Rightarrow> bool io" where
  "exists S c filePath =
     scatch
       (sbind (axios_request S (mk_request c ''HEAD'' filePath [] NoData))
          (\<lambda>(st, _, _). sreturn (200 \<le> st \<and> st < 300)))
       (\<lambda>error. if isAxiosError error \<and> response_status error = Some 404
                 then sreturn False
                 else sreturn False)"

subsection \<open>Downloads\<close>

text \<open>
  \<^verbatim>\<open>getFileContents\<close>: the body of the response, as text or wrapped into a buffer; both
  are the string of its bytes here.
\<close>

definition getFileContents :: "server \<Rightarrow> client \<Rightarrow> string \<Rightarrow> string io" where
  "getFileContents S c filePath =
     scatch
       (sbind (axios_request S (mk_request c ''GET'' filePath [] NoData))
          (\<lambda>(_, _, body). sreturn body))
       (\<lambda>error. sthrow (handleError error ''Failed to get the file contents''))"

subsection \<open>Uploads\<close>

text \<open>
  The existence check both uploads start with: \<^verbatim>\<open>options.overwrite\<close> may be missing,
  and \<^verbatim>\<open>!options.overwrite\<close> holds for a missing flag as for \<^verbatim>\<open>false\<close>.
\<close>

definition check_not_exists :: "server \<Rightarrow> client \<Rightarrow> string \<Rightarrow> bool option \<Rightarrow> unit io" where
  "check_not_exists S c filePath overwrite =
     (if overwrite \<noteq> Some True
      then sbind (exists S c filePath)
             (\<lambda>ex. if ex
                    then sthrow (WebDAVError (''File '' @ filePath @ '' already exists'')
                                   (Some 409) (Some ''Conflict'') None)
                    else sreturn ())
      else sreturn ())"

definition putFileContents :: "server \<Rightarrow> client \<Rightarrow> string \<Rightarrow> string \<Rightarrow> bool option \<Rightarrow> unit io" where
  "putFileContents S c filePath d overwrite =
     scatch
       (sbind (check_not_exists S c filePath overwrite) (\<lambda>_.
        sbind (axios_request S
                 (mk_request c ''PUT'' filePath
                    [(''Content-Type'', ''application/octet-stream'')] (Data d)))
          (\<lambda>_. sreturn ())))
       (rethrow ''Failed to upload the file contents'')"

definition putFileStream :: "server \<Rightarrow> client \<Rightarrow> string \<Rightarrow> string \<Rightarrow> bool option \<Rightarrow> unit io" where
  "putFileStream S c filePath stream overwrite =
     scatch
       (sbind (check_not_exists S c filePath overwrite) (\<lambda>_.
        sbind (axios_request S
                 ((mk_request c ''PUT'' filePath
                     [(''Content-Type'', ''application/octet-stream'')] (Stream stream))
                  \<lparr> maxBodyLength := \<infinity>, maxContentLength := \<infinity> \<rparr>))
          (\<lambda>_. sreturn ())))
       (rethrow ''Failed to upload the file stream'')"

subsection \<open>Directories, deletion\<close>

definition createDirectory :: "server \<Rightarrow> client \<Rightarrow> string \<Rightarrow> unit io" where
  "createDirectory S c dirPath =
     scatch
       (sbind (axios_request S (mk_request c ''MKCOL'' dirPath [] NoData)) (\<lambda>_. sreturn ()))
       (\<lambda>error. sthrow (handleError error ''Failed to create the directory''))"

definition deleteFile :: "server \<Rightarrow> client \<Rightarrow> string \<Rightarrow> unit io" where
  "deleteFile S c filePath =
     scatch
       (sbind (axios_request S (mk_request c ''DELETE'' filePath [] NoData)) (\<lambda>_. sreturn ()))
       (\<lambda>error. sthrow (handleError error ''Failed to delete the file or folder''))"

subsection \<open>Move and copy\<close>

text \<open>\<^verbatim>\<open>s.replace(/\/$/, '')\<close> and \<^verbatim>\<open>s.replace(/^\//, '')\<close>\<close>

definition strip_trailing_slash :: "string \<Rightarrow> string" where
  "strip_trailing_slash s = (if s \<noteq> [] \<and> last s = CHR ''/'' then butlast s else s)"

definition strip_leading_slash :: "string \<Rightarrow> string" where
  "strip_leading_slash s = (if s \<noteq> [] \<and> hd s = CHR ''/'' then tl s else s)"

definition createAbsoluteUrl :: "env \<Rightarrow> client \<Rightarrow> string \<Rightarrow> string" where
  "createAbsoluteUrl E c path =
     (if startsWith path ''http://'' \<or> startsWith path ''https://'' then path
      else (case new_URL E path (baseURL c) of
              Some u \<Rightarrow> u
            | None \<Rightarrow> strip_trailing_slash (baseURL c) @ ''/'' @ strip_leading_slash path))"

definition transfer_headers :: "env \<Rightarrow> client \<Rightarrow> string \<Rightarrow> bool option \<Rightarrow> (string \<times> string) list" where
  "transfer_headers E c destination overwrite =
     [(''Destination'', createAbsoluteUrl E c destination)] @
     (case overwrite of None \<Rightarrow> [] | Some b \<Rightarrow> [(''Overwrite'', if b then ''T'' else ''F'')])"

definition moveFile :: "env \<Rightarrow> server \<Rightarrow> client \<Rightarrow> string \<Rightarrow> string \<Rightarrow> bool option \<Rightarrow> unit io" where
  "moveFile E S c source destination overwrite =
     scatch
       (sbind (axios_request S
                 (mk_request c ''MOVE'' source (transfer_headers E c destination overwrite) NoData))
          (\<lambda>_. sreturn ()))
       (\<lambda>error. sthrow (handleError error ''Failed to move the file''))"

definition copyFile :: "env \<Rightarrow> server \<Rightarrow> client \<Rightarrow> string \<Rightarrow> string \<Rightarrow> bool option \<Rightarrow> unit io" where
  "copyFile E S c source destination overwrite =
     scatch
       (sbind (axios_request S
                 (mk_request c ''COPY'' source (transfer_headers E c destination overwrite) NoData))
          (\<lambda>_. sreturn ()))
       (\<lambda>error. sthrow (handleError error ''Failed to copy the file''))"

subsection \<open>\<^verbatim>\<open>stat\<close> and \<^verbatim>\<open>getDirectoryContents\<close>\<close>

definition nl :: string where
  "nl = [CHR 0x0A]"

definition propfind_body :: string where
  \<open>propfind_body =
     ''<?xml version="1.0" encoding="utf-8" ?>'' @ nl @
     ''                      <d:propfind xmlns:d="DAV:">'' @ nl @
     ''                          <d:prop>'' @ nl @
     ''                              <d:resourcetype/>'' @ nl @
     ''                              <d:getcontentlength/>'' @ nl @
     ''                              <d:getlastmodified/>'' @ nl @
     ''                              <d:getcontenttype/>'' @ nl @
     ''                              <d:getetag/>'' @ nl @
     ''                              <d:displayname/>'' @ nl @
     ''                          </d:prop>'' @ nl @
     ''                      </d:propfind>''\<close>

definition propfind :: "server \<Rightarrow> client \<Rightarrow> string \<Rightarrow> string \<Rightarrow> (nat \<times> string \<times> string) io" where
  "propfind S c target depth =
     axios_request S
       (mk_request c ''PROPFIND'' target
          [(''Depth'', depth), (''Content-Type'', ''application/xml; charset=utf-8'')]
          (Data propfind_body))"

definition lift :: "js_error + 'a \<Rightarrow> 'a io" where
  "lift r sent = (r, sent)"

text \<open>
  \<^verbatim>\<open>stat\<close>: the first record of the parsed body is mapped; an empty list of records is
  answered with an error of status 404.
\<close>

definition stat :: "env \<Rightarrow> server \<Rightarrow> client \<Rightarrow> string \<Rightarrow> FileInfo io" where
  "stat E S c filePath =
     scatch
       (sbind (propfind S c filePath ''0'') (\<lambda>(_, _, body).
        sbind (lift (parseWebDAVResponse E body)) (\<lambda>webdavResponses.
        (case webdavResponses of
           [] \<Rightarrow> sthrow (WebDAVError ''Failed to get information about the resource''
                          (Some 404) (Some ''Not Found'') None)
         | first # _ \<Rightarrow> sreturn (webdavResponseToFileInfo E first)))))
       (rethrow ''Failed to get information about the file'')"

text \<open>The test that skips the queried directory's own entry.\<close>

definition is_self :: "string \<Rightarrow> string \<Rightarrow> string \<Rightarrow> bool" where
  "is_self dirPath normalizedPath h =
     (h = normalizedPath \<or> h = dirPath \<or> h = butlast normalizedPath \<or>
      h @ ''/'' = normalizedPath)"

fun collect_files :: "env \<Rightarrow> string \<Rightarrow> string \<Rightarrow> WebDAVResponse list \<Rightarrow> FileInfo list" where
  "collect_files E dirPath normalizedPath [] = []"
| "collect_files E dirPath normalizedPath (webdavResponse # rest) =
     (if is_self dirPath normalizedPath (href webdavResponse)
      then collect_files E dirPath normalizedPath rest
      else webdavResponseToFileInfo E webdavResponse # collect_files E dirPath normalizedPath rest)"

definition normalize_dir :: "string \<Rightarrow> string" where
  "normalize_dir dirPath = (if \<not> endsWith dirPath ''/'' then dirPath @ ''/'' else dirPath)"

definition getDirectoryContents :: "env \<Rightarrow> server \<Rightarrow> client \<Rightarrow> string \<Rightarrow> bool \<Rightarrow> FileInfo list io" where
  "getDirectoryContents E S c dirPath deep =
     scatch
       (let normalizedPath = normalize_dir dirPath in
        sbind (propfind S c normalizedPath (if deep then ''infinity'' else ''1'')) (\<lambda>(_, _, body).
        sbind (lift (parseWebDAVResponse E body)) (\<lambda>webdavResponses.
        sreturn (collect_files E dirPath normalizedPath webdavResponses))))
       (rethrow ''Failed to get the directory contents'')"

section \<open>The node's move operation\<close>

text \<open>
  From \<^verbatim>\<open>WebDav.execute\<close>: the helper that creates the ancestors of a path one level at
  a time, and the body of the branch for \<^verbatim>\<open>FileOperation.MOVE\<close> on one input item.
\<close>

fun split_slash :: "string \<Rightarrow> string list" where
  "split_slash [] = [[]]"
| "split_slash (ch # s) =
     (if ch = CHR ''/'' then [] # split_slash s
      else (case split_slash s of [] \<Rightarrow> [[ch]] | p # ps \<Rightarrow> (ch # p) # ps))"

fun create_each :: "server \<Rightarrow> client \<Rightarrow> string \<Rightarrow> string list \<Rightarrow> unit io" where
  "create_each S c currentPath [] sent = (Inr (), sent)"
| "create_each S c currentPath (part # parts) sent =
     (case exists S c (currentPath @ ''/'' @ part) sent of
        (Inl e, sent1) \<Rightarrow> (Inl e, sent1)
      | (Inr ex, sent1) \<Rightarrow>
          if \<not> ex
          then (case createDirectory S c (currentPath @ ''/'' @ part) sent1 of
                  (Inl e, sent2) \<Rightarrow> (Inl e, sent2)
                | (Inr _, sent2) \<Rightarrow> create_each S c (currentPath @ ''/'' @ part) parts sent2)
          else create_each S c (currentPath @ ''/'' @ part) parts sent1)"

definition createParentDirectories :: "server \<Rightarrow> client \<Rightarrow> string \<Rightarrow> unit io" where
  "createParentDirectories S c dirPath =
     create_each S c [] (filter (\<lambda>part. length part > 0) (split_slash dirPath))"

record move_result =
  sourceFile :: string
  targetFile :: string
  res_name :: string
  res_size :: jsnum
  res_lastModified :: jsval

definition move_operation ::
  "env \<Rightarrow> server \<Rightarrow> client \<Rightarrow> string \<Rightarrow> string \<Rightarrow> bool \<Rightarrow> bool \<Rightarrow> move_result io" where
  "move_operation E S c filePath targetPath overwrite createParentFolders =
     sbind (exists S c filePath) (\<lambda>sourceExists.
     if \<not> sourceExists
     then sthrow (NodeOperationError
                    (''Source file '' @ filePath @ '' does not exist on the server''))
     else
     sbind (exists S c targetPath) (\<lambda>targetExists.
     if targetExists \<and> \<not> overwrite
     then sthrow (NodeOperationError
                    (''Target file '' @ targetPath @
                     '' already exists. Set the Overwrite flag to overwrite.''))
     else
     sbind (if createParentFolders
            then (let dirPath = path_dirname E targetPath in
                  if dirPath \<noteq> ''/'' \<and> dirPath \<noteq> ''.''
                  then createParentDirectories S c dirPath else sreturn ())
            else sreturn ()) (\<lambda>_.
     sbind (moveFile E S c filePath targetPath (Some overwrite)) (\<lambda>_.
     sbind (scatch (sbind (stat E S c targetPath) (\<lambda>fileInfo. sreturn (fsize fileInfo, lastmod fileInfo)))
              (\<lambda>error. sreturn (Num 0, JStr (now_ISO E)))) (\<lambda>(sz, lm).
     sreturn \<lparr> sourceFile = filePath, targetFile = targetPath,
               res_name = path_basename E targetPath, res_size = sz,
               res_lastModified = lm \<rparr>)))))"

section \<open>Notions the properties are stated with\<close>

subsection \<open>What the XML parser delivers\<close>

text \<open>
  The XML parser represents an element that occurs once under its parent by its value and
  an element that occurs several times by the array of the values (the client sets no
  \<^verbatim>\<open>isArray\<close> option), so no array in a tree it delivers is empty.
\<close>

fun no_empty_array :: "jsval \<Rightarrow> bool" where
  "no_empty_array (JArr xs) = (xs \<noteq> [] \<and> (\<forall>x \<in> set xs. no_empty_array x))"
| "no_empty_array (JObj kvs) = (\<forall>kv \<in> set kvs. no_empty_array (snd kv))"
| "no_empty_array _ = True"

definition parser_contract :: "env \<Rightarrow> bool" where
  "parser_contract E = (\<forall>x doc. xml_parse E x = Inr doc \<longrightarrow> no_empty_array doc)"

subsection \<open>Spellings of an element name\<close>

text \<open>
  The local name of a key with respect to a vocabulary \<open>V\<close> of element names: a key
  \<^verbatim>\<open>d:n\<close> or \<^verbatim>\<open>D:n\<close> with \<open>n\<close> in \<open>V\<close> stands for \<open>n\<close>; every other key stands for
  itself.
\<close>

definition local_name :: "string list \<Rightarrow> string \<Rightarrow> string" where
  "local_name V k =
     (if (startsWith k ''d:'' \<or> startsWith k ''D:'') \<and> drop 2 k \<in> set V then drop 2 k else k)"

text \<open>
  The parser keeps attributes (\<^verbatim>\<open>ignoreAttributes: false\<close>) under their name prefixed
  with \<^verbatim>\<open>@_\<close>, so the declaration of a namespace prefix on an element is a key
  \<^verbatim>\<open>@_xmlns:d\<close>, \<^verbatim>\<open>@_xmlns:D\<close> or, for the default namespace, \<^verbatim>\<open>@_xmlns\<close> of the
  element's object.  The declarations belong to the spelling of the prefix; the other
  entries of the object are its content.
\<close>

definition is_declaration :: "string \<Rightarrow> bool" where
  "is_declaration k = (k = ''@_xmlns'' \<or> startsWith k ''@_xmlns:'')"

definition content :: "(string \<times> jsval) list \<Rightarrow> (string \<times> jsval) list" where
  "content kvs = filter (\<lambda>(k, x). \<not> is_declaration k) kvs"

text \<open>
  \<open>unprefix V f v\<close> drops the namespace declarations of the object \<open>v\<close>, rewrites the
  keys of its content to their local names and applies \<open>f n\<close> to the value of the field
  with local name \<open>n\<close>; \<open>each f v\<close> applies \<open>f\<close> to an element that may occur once or
  several times.
\<close>

definition unprefix :: "string list \<Rightarrow> (string \<Rightarrow> jsval \<Rightarrow> jsval) \<Rightarrow> jsval \<Rightarrow> jsval" where
  "unprefix V f v =
     (case v of
        JObj kvs \<Rightarrow> JObj (map (\<lambda>(k, x). (local_name V k, f (local_name V k) x)) (content kvs))
      | _ \<Rightarrow> v)"

definition each :: "(jsval \<Rightarrow> jsval) \<Rightarrow> jsval \<Rightarrow> jsval" where
  "each f v = (case v of JArr xs \<Rightarrow> JArr (map f xs) | _ \<Rightarrow> f v)"

definition only :: "string \<Rightarrow> (jsval \<Rightarrow> jsval) \<Rightarrow> string \<Rightarrow> jsval \<Rightarrow> jsval" where
  "only n f k x = (if k = n then f x else x)"

definition prop_names :: "string list" where
  "prop_names = [''getcontentlength'', ''getlastmodified'', ''getcontenttype'', ''getetag'',
                 ''resourcetype'', ''displayname'']"

text \<open>
  The document with every recognised element written without prefix and without namespace
  declarations: the root, the response elements, \<^verbatim>\<open>href\<close>, the property-status blocks,
  \<^verbatim>\<open>status\<close>, \<^verbatim>\<open>prop\<close>, the six properties and the collection marker.  The values
  of the properties are left as they are.
\<close>

definition bare_resourcetype :: "jsval \<Rightarrow> jsval" where
  "bare_resourcetype = unprefix [''collection''] (\<lambda>_ x. x)"

definition bare_prop :: "jsval \<Rightarrow> jsval" where
  "bare_prop = unprefix prop_names (only ''resourcetype'' bare_resourcetype)"

definition bare_propstat :: "jsval \<Rightarrow> jsval" where
  "bare_propstat = unprefix [''status'', ''prop''] (only ''prop'' bare_prop)"

definition bare_response :: "jsval \<Rightarrow> jsval" where
  "bare_response = unprefix [''href'', ''propstat''] (only ''propstat'' (each bare_propstat))"

definition bare_multistatus :: "jsval \<Rightarrow> jsval" where
  "bare_multistatus = unprefix [''response''] (only ''response'' (each bare_response))"


text \<open>
  \<open>spelled_once V P v\<close>: no two keys of the content of the object \<open>v\<close> have the same
  local name (no field occurs under two spellings), and \<open>P n\<close> holds of the value of the
  field with local name \<open>n\<close>.
\<close>

definition spelled_once :: "string list \<Rightarrow> (string \<Rightarrow> jsval \<Rightarrow> bool) \<Rightarrow> jsval \<Rightarrow> bool" where
  "spelled_once V P v =
     (case v of
        JObj kvs \<Rightarrow> distinct (map (\<lambda>(k, x). local_name V k) (content kvs)) \<and>
                    list_all (\<lambda>(k, x). P (local_name V k) x) (content kvs)
      | _ \<Rightarrow> True)"

definition each_ok :: "(jsval \<Rightarrow> bool) \<Rightarrow> jsval \<Rightarrow> bool" where
  "each_ok P v = (case v of JArr xs \<Rightarrow> list_all P xs | _ \<Rightarrow> P v)"

definition only_ok :: "string \<Rightarrow> (jsval \<Rightarrow> bool) \<Rightarrow> string \<Rightarrow> jsval \<Rightarrow> bool" where
  "only_ok n P k x = (if k = n then P x else True)"

definition once_resourcetype :: "jsval \<Rightarrow> bool" where
  "once_resourcetype = spelled_once [''collection''] (\<lambda>_ _. True)"

definition once_prop :: "jsval \<Rightarrow> bool" where
  "once_prop = spelled_once prop_names (only_ok ''resourcetype'' once_resourcetype)"

definition once_propstat :: "jsval \<Rightarrow> bool" where
  "once_propstat = spelled_once [''status'', ''prop''] (only_ok ''prop'' once_prop)"

definition once_response :: "jsval \<Rightarrow> bool" where
  "once_response = spelled_once [''href'', ''propstat''] (only_ok ''propstat'' (each_ok once_propstat))"

definition once_multistatus :: "jsval \<Rightarrow> bool" where
  "once_multistatus = spelled_once [''response''] (only_ok ''response'' (each_ok once_response))"







subsection \<open>Absolute URLs\<close>

text \<open>
  A string is an absolute URL when it starts with a scheme: a letter, then letters,
  digits, \<^verbatim>\<open>+\<close>, \<^verbatim>\<open>-\<close> or \<^verbatim>\<open>.\<close>, then a colon.
\<close>

definition is_alpha :: "char \<Rightarrow> bool" where
  "is_alpha ch = (((65 :: nat) \<le> of_char ch \<and> (of_char ch :: nat) \<le> 90) \<or>
                 ((97 :: nat) \<le> of_char ch \<and> (of_char ch :: nat) \<le> 122))"

definition is_scheme_char :: "char \<Rightarrow> bool" where
  "is_scheme_char ch =
     (is_alpha ch \<or> is_digit ch \<or> ch = CHR ''+'' \<or> ch = CHR ''-'' \<or> ch = CHR ''.'')"

definition is_absolute_url :: "string \<Rightarrow> bool" where
  "is_absolute_url s =
     (case s of
        [] \<Rightarrow> False
      | ch # r \<Rightarrow> is_alpha ch \<and>
                 (case dropWhile is_scheme_char r of [] \<Rightarrow> False | d # _ \<Rightarrow> d = CHR '':''))"

text \<open>What the URL constructor guarantees of the string it serialises.\<close>

definition url_contract :: "env \<Rightarrow> bool" where
  "url_contract E = (\<forall>p b u. new_URL E p b = Some u \<longrightarrow> is_absolute_url u)"

subsection \<open>Property-status blocks\<close>

text \<open>
  The status line of a block contains \<^verbatim>\<open>200\<close>; and a block as a server sends it: an
  element whose status, when it has one, is text.
\<close>

definition status_contains_200 :: "jsval \<Rightarrow> bool" where
  "status_contains_200 ps =
     (case getField ps (spellings ''status'') of
        Inr (JStr s) \<Rightarrow> str_includes s ''200''
      | _ \<Rightarrow> False)"

definition is_block :: "jsval \<Rightarrow> bool" where
  "is_block ps =
     (case ps of
        JObj kvs \<Rightarrow> (case getField ps (spellings ''status'') of
                       Inr (JStr s) \<Rightarrow> True
                     | Inr JUndefined \<Rightarrow> True
                     | _ \<Rightarrow> False)
      | _ \<Rightarrow> False)"

subsection \<open>The entry of the queried directory\<close>

text \<open>
  An address denotes the directory \<open>dir\<close> when it is \<open>dir\<close> as given, \<open>dir\<close> with
  a trailing separator, or that without its trailing separator.
\<close>

definition denotes_dir :: "string \<Rightarrow> string \<Rightarrow> bool" where
  "denotes_dir dir h = (h = dir \<or> h = normalize_dir dir \<or> h = butlast (normalize_dir dir))"

section \<open>Sample environments and servers\<close>

text \<open>
  A concrete environment and concrete servers to run the operations on.  The parser is a
  table from response bodies to their value trees; the samples contain no percent sign,
  where \<^verbatim>\<open>decodeURIComponent\<close> is the identity; \<^verbatim>\<open>path.basename\<close> and
  \<^verbatim>\<open>path.dirname\<close> are the POSIX ones; the URL constructor rejects a base that is not
  an absolute URL, and against a base that ends in a slash it resolves a reference that
  starts with a slash from the origin of the base and any other relative reference by
  appending it to the base (the samples have no dot segments, queries or fragments).
\<close>

definition posix_basename :: "string \<Rightarrow> string" where
  "posix_basename s =
     rev (takeWhile (\<lambda>ch. ch \<noteq> CHR ''/'') (dropWhile (\<lambda>ch. ch = CHR ''/'') (rev s)))"

definition posix_dirname :: "string \<Rightarrow> string" where
  "posix_dirname s =
     (if s = [] then ''.''
      else (let r = dropWhile (\<lambda>ch. ch \<noteq> CHR ''/'')
                      (dropWhile (\<lambda>ch. ch = CHR ''/'') (rev (tl s)))
            in if r = [] then (if hd s = CHR ''/'' then ''/'' else ''.'')
               else if hd s = CHR ''/'' \<and> length r = 1 then ''//''
               else take (length r) s))"

definition url_origin :: "string \<Rightarrow> string" where
  "url_origin b =
     (let r = tl (dropWhile is_scheme_char (tl b)) in
      hd b # takeWhile is_scheme_char (tl b) @ '':'' @
      (if startsWith r ''//'' then ''//'' @ takeWhile (\<lambda>ch. ch \<noteq> CHR ''/'') (drop 2 r) else []))"

definition sample_URL :: "string \<Rightarrow> string \<Rightarrow> string option" where
  "sample_URL p b =
     (if \<not> is_absolute_url b \<or> \<not> endsWith b ''/'' then None
      else if is_absolute_url p then Some p
      else if p \<noteq> [] \<and> hd p = CHR ''/'' then Some (url_origin b @ p)
      else Some (b @ p))"

definition sample_env :: "(string \<times> jsval) list \<Rightarrow> env" where
  "sample_env docs =
     \<lparr> xml_parse = (\<lambda>s. case map_of docs s of
                           None \<Rightarrow> Inl ''Unexpected end of input''
                         | Some v \<Rightarrow> Inr v),
       decodeURIComponent = (\<lambda>s. if CHR ''%'' \<in> set s then Inl ''URI malformed'' else Inr s),
       path_basename = posix_basename,
       path_dirname = posix_dirname,
       new_URL = sample_URL,
       now_ISO = ''2026-01-01T00:00:00.000Z'' \<rparr>"

text \<open>A server that answers by method and URL, and with 404 for anything else.\<close>

definition sample_server :: "((string \<times> string) \<times> reply) list \<Rightarrow> server" where
  "sample_server table sent req =
     (case map_of table (http_method req, url req) of
        None \<Rightarrow> Reply 404 ''Not Found'' []
      | Some r \<Rightarrow> r)"

definition sample_client :: client where
  "sample_client =
     createClient ''https://dav.example.com/remote/''
       \<lparr> opt_username = Some ''alice'', opt_password = Some ''secret'', opt_token = None,
         opt_headers = [], opt_maxBodyLength = None, opt_maxContentLength = None \<rparr>"

text \<open>
  XML text is written with two helpers: an element with content, and one that also has
  attributes.
\<close>

definition element :: "string \<Rightarrow> string \<Rightarrow> string" where
  "element name inner = ''<'' @ name @ ''>'' @ inner @ ''</'' @ name @ ''>''"

definition element_with :: "string \<Rightarrow> string \<Rightarrow> string \<Rightarrow> string" where
  "element_with name attributes inner =
     ''<'' @ name @ '' '' @ attributes @ ''>'' @ inner @ ''</'' @ name @ ''>''"

text \<open>
  One response element in a given spelling of its tags, as text and as the parser delivers
  it; \<open>pre\<close> is \<^verbatim>\<open>d:\<close>, \<^verbatim>\<open>D:\<close> or empty.
\<close>

definition sample_response_text :: "string \<Rightarrow> string" where
  "sample_response_text pre =
     element (pre @ ''response'')
       (element (pre @ ''href'') ''/docs/'' @
        element (pre @ ''propstat'')
          (element (pre @ ''prop'')
             (element (pre @ ''resourcetype'') (''<'' @ pre @ ''collection/>'') @
              element (pre @ ''getlastmodified'') ''Mon, 05 Jan 2026 10:00:00 GMT'' @
              element (pre @ ''getetag'') ''abc'') @
           element (pre @ ''status'') ''HTTP/1.1 200 OK''))"

definition sample_response :: "string \<Rightarrow> jsval" where
  "sample_response pre =
     JObj [(pre @ ''href'', JStr ''/docs/''),
           (pre @ ''propstat'',
            JObj [(pre @ ''prop'',
                   JObj [(pre @ ''resourcetype'', JObj [(pre @ ''collection'', JStr [])]),
                         (pre @ ''getlastmodified'', JStr ''Mon, 05 Jan 2026 10:00:00 GMT''),
                         (pre @ ''getetag'', JStr ''abc'')]),
                  (pre @ ''status'', JStr ''HTTP/1.1 200 OK'')])]"

text \<open>
  A multistatus document with that one response, the prefix declared on the root: the
  three documents a server may send for the same listing.
\<close>

definition lower_text :: string where
  \<open>lower_text = element_with ''d:multistatus'' ''xmlns:d="DAV:"'' (sample_response_text ''d:'')\<close>

definition upper_text :: string where
  \<open>upper_text = element_with ''D:multistatus'' ''xmlns:D="DAV:"'' (sample_response_text ''D:'')\<close>

definition bare_text :: string where
  \<open>bare_text = element_with ''multistatus'' ''xmlns="DAV:"'' (sample_response_text [])\<close>

definition lower_document :: jsval where
  "lower_document =
     JObj [(''d:multistatus'',
            JObj [(''d:response'', sample_response ''d:''), (''@_xmlns:d'', JStr ''DAV:'')])]"

definition upper_document :: jsval where
  "upper_document =
     JObj [(''D:multistatus'',
            JObj [(''D:response'', sample_response ''D:''), (''@_xmlns:D'', JStr ''DAV:'')])]"

definition bare_sample_document :: jsval where
  "bare_sample_document =
     JObj [(''multistatus'',
            JObj [(''response'', sample_response []), (''@_xmlns'', JStr ''DAV:'')])]"

text \<open>
  A server with two files and an unreachable path: \<^verbatim>\<open>HEAD\<close> succeeds on
  \<^verbatim>\<open>/a.txt\<close> and \<^verbatim>\<open>/b.txt\<close>, a \<^verbatim>\<open>GET\<close> of \<^verbatim>\<open>/a.txt\<close> delivers twelve bytes, the
  connection fails on \<^verbatim>\<open>/down\<close>, a \<^verbatim>\<open>MOVE\<close> of \<^verbatim>\<open>/a.txt\<close> is refused with 412, a
  \<^verbatim>\<open>PUT\<close> to \<^verbatim>\<open>/big.bin\<close> is accepted, and anything else is answered with 404.
\<close>

definition files_server :: server where
  "files_server =
     sample_server
       [((''HEAD'', ''/a.txt''), Reply 200 ''OK'' []),
        ((''HEAD'', ''/b.txt''), Reply 200 ''OK'' []),
        ((''GET'', ''/a.txt''), Reply 200 ''OK'' ''hello, world''),
        ((''HEAD'', ''/down''), NoReply ''connect ECONNREFUSED''),
        ((''MOVE'', ''/a.txt''), Reply 412 ''Precondition Failed'' []),
        ((''MOVE'', ''https://dav.example.com/remote/a.txt''), Reply 201 ''Created'' []),
        ((''PUT'', ''/big.bin''), Reply 201 ''Created'' [])]"

text \<open>A normalised record with a given content-length property and nothing else.\<close>

definition sample_record :: "jsval \<Rightarrow> WebDAVResponse" where
  "sample_record len =
     \<lparr> href = ''/docs/report.pdf'',
       propstat = \<lparr> props = \<lparr> getcontentlength = len, getlastmodified = JUndefined,
                                getcontenttype = JUndefined, getetag = JUndefined,
                                resourcetype = JUndefined, displayname = JUndefined \<rparr>,
                    status = JStr ''HTTP/1.1 200 OK'' \<rparr> \<rparr>"

text \<open>
  A listing of \<^verbatim>\<open>/docs/\<close>: the collection itself, once with and once without the
  trailing slash, and a file of 10240 bytes in it; and the answer for the file alone.
\<close>

definition collection_entry_text :: "string \<Rightarrow> string" where
  "collection_entry_text h =
     element ''d:response''
       (element ''d:href'' h @
        element ''d:propstat''
          (element ''d:prop'' (element ''d:resourcetype'' ''<d:collection/>'') @
           element ''d:status'' ''HTTP/1.1 200 OK''))"

definition file_entry_text :: "string \<Rightarrow> string \<Rightarrow> string" where
  "file_entry_text h len =
     element ''d:response''
       (element ''d:href'' h @
        element ''d:propstat''
          (element ''d:prop'' (''<d:resourcetype/>'' @ element ''d:getcontentlength'' len) @
           element ''d:status'' ''HTTP/1.1 200 OK''))"

definition listing_text :: string where
  \<open>listing_text =
     element_with ''d:multistatus'' ''xmlns:d="DAV:"''
       (collection_entry_text ''/docs/'' @ collection_entry_text ''/docs'' @
        file_entry_text ''/docs/report.pdf'' ''10240'')\<close>

definition report_text :: string where
  \<open>report_text =
     element_with ''d:multistatus'' ''xmlns:d="DAV:"''
       (file_entry_text ''/docs/report.pdf'' ''10240'')\<close>

definition collection_entry :: "string \<Rightarrow> jsval" where
  "collection_entry h =
     JObj [(''d:href'', JStr h),
           (''d:propstat'',
            JObj [(''d:prop'', JObj [(''d:resourcetype'', JObj [(''d:collection'', JStr [])])]),
                  (''d:status'', JStr ''HTTP/1.1 200 OK'')])]"

definition file_entry :: "string \<Rightarrow> 54 word \<Rightarrow> jsval" where
  "file_entry h len =
     JObj [(''d:href'', JStr h),
           (''d:propstat'',
            JObj [(''d:prop'', JObj [(''d:resourcetype'', JStr []),
                                     (''d:getcontentlength'', JNum len)]),
                  (''d:status'', JStr ''HTTP/1.1 200 OK'')])]"

definition listing_document :: jsval where
  "listing_document =
     JObj [(''d:multistatus'',
            JObj [(''d:response'',
                   JArr [collection_entry ''/docs/'', collection_entry ''/docs'',
                         file_entry ''/docs/report.pdf'' 10240]),
                  (''@_xmlns:d'', JStr ''DAV:'')])]"

definition report_document :: jsval where
  "report_document =
     JObj [(''d:multistatus'',
            JObj [(''d:response'', file_entry ''/docs/report.pdf'' 10240),
                  (''@_xmlns:d'', JStr ''DAV:'')])]"

text \<open>
  A multistatus element without any response element, and a page that is no multistatus
  document at all.
\<close>

definition empty_multistatus_text :: string where
  \<open>empty_multistatus_text = ''<d:multistatus xmlns:d="DAV:"/>''\<close>

definition empty_multistatus_document :: jsval where
  "empty_multistatus_document = JObj [(''d:multistatus'', JObj [(''@_xmlns:d'', JStr ''DAV:'')])]"

definition page_text :: string where
  "page_text = element ''html'' (element ''body'' ''It works'')"

definition page_document :: jsval where
  "page_document = JObj [(''html'', JObj [(''body'', JStr ''It works'')])]"

text \<open>
  One document holding the same response element three times, prefixed \<^verbatim>\<open>d:\<close>,
  prefixed \<^verbatim>\<open>D:\<close> and unprefixed: the parser files them under three keys.
\<close>

definition mixed_text :: string where
  \<open>mixed_text =
     element_with ''multistatus'' ''xmlns="DAV:" xmlns:d="DAV:" xmlns:D="DAV:"''
       (sample_response_text ''d:'' @ sample_response_text ''D:'' @ sample_response_text [])\<close>

definition mixed_document :: jsval where
  "mixed_document =
     JObj [(''multistatus'',
            JObj [(''d:response'', sample_response ''d:''),
                  (''D:response'', sample_response ''D:''),
                  (''response'', sample_response []),
                  (''@_xmlns'', JStr ''DAV:''),
                  (''@_xmlns:d'', JStr ''DAV:''),
                  (''@_xmlns:D'', JStr ''DAV:'')])]"

text \<open>
  The sample document with its elements in assorted spellings, and the record every
  spelling of it maps to.
\<close>

definition assorted_text :: string where
  \<open>assorted_text =
     element_with ''D:multistatus'' ''xmlns:D="DAV:" xmlns:d="DAV:" xmlns="DAV:"''
       (element ''response''
          (element ''d:href'' ''/docs/'' @
           element ''D:propstat''
             (element ''prop''
                (element ''D:resourcetype'' ''<collection/>'' @
                 element ''getlastmodified'' ''Mon, 05 Jan 2026 10:00:00 GMT'' @
                 element ''d:getetag'' ''abc'') @
              element ''d:status'' ''HTTP/1.1 200 OK'')))\<close>

definition assorted_document :: jsval where
  "assorted_document =
     JObj [(''D:multistatus'',
            JObj [(''response'',
                   JObj [(''d:href'', JStr ''/docs/''),
                         (''D:propstat'',
                          JObj [(''prop'',
                                 JObj [(''D:resourcetype'', JObj [(''collection'', JStr [])]),
                                       (''getlastmodified'', JStr ''Mon, 05 Jan 2026 10:00:00 GMT''),
                                       (''d:getetag'', JStr ''abc'')]),
                                (''d:status'', JStr ''HTTP/1.1 200 OK'')])]),
                  (''@_xmlns:D'', JStr ''DAV:''),
                  (''@_xmlns:d'', JStr ''DAV:''),
                  (''@_xmlns'', JStr ''DAV:'')])]"


definition docs_env :: env where
  "docs_env =
     sample_env
       [(listing_text, listing_document),
        (report_text, report_document),
        (empty_multistatus_text, empty_multistatus_document),
        (page_text, page_document),
        (lower_text, lower_document),
        (upper_text, upper_document),
        (bare_text, bare_sample_document),
        (assorted_text, assorted_document),
        (mixed_text, mixed_document)]"

definition docs_server :: server where
  "docs_server =
     sample_server
       [((''PROPFIND'', ''/docs/''), Reply 207 ''Multi-Status'' listing_text),
        ((''PROPFIND'', ''/docs/report.pdf''), Reply 207 ''Multi-Status'' report_text),
        ((''PROPFIND'', ''/none''), Reply 207 ''Multi-Status'' empty_multistatus_text),
        ((''PROPFIND'', ''/page''), Reply 200 ''OK'' page_text)]"

text \<open>
  A client configured with a request limit and a response limit of ten bytes, one with
  only the response limit, and two whose base URL is not an absolute URL.
\<close>

definition small_client :: client where
  "small_client =
     createClient ''https://dav.example.com/remote/''
       \<lparr> opt_username = None, opt_password = None, opt_token = Some ''t0ken'',
         opt_headers = [], opt_maxBodyLength = Some 10, opt_maxContentLength = Some 10 \<rparr>"

definition narrow_client :: client where
  "narrow_client =
     createClient ''https://dav.example.com/remote/''
       \<lparr> opt_username = None, opt_password = None, opt_token = Some ''t0ken'',
         opt_headers = [], opt_maxBodyLength = None, opt_maxContentLength = Some 10 \<rparr>"

definition schemeless_client :: client where
  "schemeless_client =
     createClient ''dav.example.com/remote''
       \<lparr> opt_username = Some ''alice'', opt_password = Some ''secret'', opt_token = None,
         opt_headers = [], opt_maxBodyLength = None, opt_maxContentLength = None \<rparr>"

definition baseless_client :: client where
  "baseless_client =
     createClient []
       \<lparr> opt_username = Some ''alice'', opt_password = Some ''secret'', opt_token = None,
         opt_headers = [], opt_maxBodyLength = None, opt_maxContentLength = None \<rparr>"

text \<open>A property-status block with a given status line and entity tag.\<close>

definition sample_block :: "string \<Rightarrow> string \<Rightarrow> jsval" where
  "sample_block line tag =
     JObj [(''d:prop'', JObj [(''d:getetag'', JStr tag)]), (''d:status'', JStr line)]"

text \<open>The record the file of the listing maps to.\<close>

definition report_info :: FileInfo where
  "report_info =
     \<lparr> filename = ''/docs/report.pdf'', basename = JStr ''report.pdf'', ftype = File,
       fsize = Num 10240, lastmod = JStr ''2026-01-01T00:00:00.000Z'',
       mime = JUndefined, etag = JUndefined \<rparr>"

section \<open>Properties of the transport and of \<^verbatim>\<open>exists\<close>\<close>

lemma mk_request_sel [simp]:
  "http_method (mk_request c m u hs d) = m" "url (mk_request c m u hs d) = u"
  "headers (mk_request c m u hs d) = hs" "data (mk_request c m u hs d) = d"
  "maxBodyLength (mk_request c m u hs d) = cfg_maxBodyLength c"
  "maxContentLength (mk_request c m u hs d) = cfg_maxContentLength c"
  by (simp_all add: mk_request_def)

text \<open>A request without payload is always transmitted.\<close>

lemma axios_request_no_data:
  "data req = NoData \<Longrightarrow> axios_request S req sent =
     (case S sent req of
        NoReply msg \<Rightarrow> (Inl (AxiosError msg None), sent @ [req])
      | Reply st txt body \<Rightarrow>
          if http_method req \<noteq> ''HEAD'' \<and> maxContentLength req < enat (length body)
          then (Inl (AxiosError (''maxContentLength size of '' @
                                 show_limit (maxContentLength req) @ '' exceeded'') None),
                sent @ [req])
          else if 200 \<le> st \<and> st < 300 then (Inr (st, txt, body), sent @ [req])
          else (Inl (AxiosError (''Request failed with status code '' @ show_nat st)
                       (Some (st, txt, body))), sent @ [req]))"
  by (simp add: axios_request_def zero_enat_def[symmetric])

lemma exists_eq:
  "exists S c filePath sent =
     (Inr (case S sent (mk_request c ''HEAD'' filePath [] NoData) of
             Reply st txt body \<Rightarrow> 200 \<le> st \<and> st < 300
           | NoReply msg \<Rightarrow> False),
      sent @ [mk_request c ''HEAD'' filePath [] NoData])"
  by (cases "S sent (mk_request c ''HEAD'' filePath [] NoData)")
     (auto simp: exists_def scatch_def sbind_def sreturn_def axios_request_no_data)

text \<open>
  C2.  For every path, server and history, \<^verbatim>\<open>exists\<close> transmits one \<^verbatim>\<open>HEAD\<close> request
  for the path and returns a boolean, never an error; the boolean is true exactly when the
  server answered with a status from 200 to 299.  So it is false for a 404, for any other
  status outside 2xx, and when no response arrives (network or TLS failure).
\<close>

theorem exists_true_iff_2xx:
  "\<exists>b. exists S c filePath sent = (Inr b, sent @ [mk_request c ''HEAD'' filePath [] NoData]) \<and>
       (b \<longleftrightarrow> (\<exists>st txt body.
                S sent (mk_request c ''HEAD'' filePath [] NoData) = Reply st txt body \<and>
                200 \<le> st \<and> st < 300))"
  by (cases "S sent (mk_request c ''HEAD'' filePath [] NoData)") (auto simp: exists_eq)

theorem exists_true_iff_2xx_witness:
  "fst (exists files_server sample_client ''/a.txt'' []) = Inr True \<and>
   fst (exists files_server sample_client ''/missing.txt'' []) = Inr False \<and>
   fst (exists files_server sample_client ''/down'' []) = Inr False"
  using exists_true_iff_2xx [of files_server sample_client "''/a.txt''" "[]"]
        exists_true_iff_2xx [of files_server sample_client "''/missing.txt''" "[]"]
        exists_true_iff_2xx [of files_server sample_client "''/down''" "[]"]
  by (auto simp: files_server_def sample_server_def)

section \<open>Uploads onto an existing path\<close>

text \<open>
  C3.  When \<^verbatim>\<open>exists(path)\<close> returns true and the overwrite flag is false or missing,
  \<^verbatim>\<open>putFileContents\<close> and \<^verbatim>\<open>putFileStream\<close> both throw the \<^verbatim>\<open>WebDAVError\<close> with status
  409 and status text Conflict, and the only request transmitted is the \<^verbatim>\<open>HEAD\<close> of the
  existence check: no \<^verbatim>\<open>PUT\<close> is sent.
\<close>

theorem put_on_existing_path_conflicts:
  assumes "exists S c filePath sent = (Inr True, sent')" and "overwrite \<noteq> Some True"
  shows "putFileContents S c filePath d overwrite sent =
           (Inl (WebDAVError (''File '' @ filePath @ '' already exists'')
                   (Some 409) (Some ''Conflict'') None), sent') \<and>
         putFileStream S c filePath d overwrite sent =
           (Inl (WebDAVError (''File '' @ filePath @ '' already exists'')
                   (Some 409) (Some ''Conflict'') None), sent') \<and>
         sent' = sent @ [mk_request c ''HEAD'' filePath [] NoData]"
proof -
  from assms(1) have s: "sent' = sent @ [mk_request c ''HEAD'' filePath [] NoData]"
    by (simp add: exists_eq)
  have chk: "check_not_exists S c filePath overwrite sent =
     (Inl (WebDAVError (''File '' @ filePath @ '' already exists'')
             (Some 409) (Some ''Conflict'') None), sent')"
    using assms by (simp add: check_not_exists_def sbind_def sthrow_def)
  show ?thesis
    using chk s by (simp add: putFileContents_def putFileStream_def scatch_def sbind_def sthrow_def)
qed

theorem put_on_existing_path_conflicts_witness:
  "exists files_server sample_client ''/a.txt'' [] =
     (Inr True, [mk_request sample_client ''HEAD'' ''/a.txt'' [] NoData]) \<and>
   putFileContents files_server sample_client ''/a.txt'' ''new text'' (Some False) [] =
     (Inl (WebDAVError ''File /a.txt already exists'' (Some 409) (Some ''Conflict'') None),
      [mk_request sample_client ''HEAD'' ''/a.txt'' [] NoData]) \<and>
   putFileStream files_server sample_client ''/a.txt'' ''new text'' None [] =
     (Inl (WebDAVError ''File /a.txt already exists'' (Some 409) (Some ''Conflict'') None),
      [mk_request sample_client ''HEAD'' ''/a.txt'' [] NoData])"
proof -
  have e: "exists files_server sample_client ''/a.txt'' [] =
     (Inr True, [mk_request sample_client ''HEAD'' ''/a.txt'' [] NoData])"
    by (simp add: exists_eq files_server_def sample_server_def)
  show ?thesis
    using e put_on_existing_path_conflicts [OF e, of "Some False" "''new text''"]
          put_on_existing_path_conflicts [OF e, of None "''new text''"]
    by simp
qed

section \<open>The size of a mapped record\<close>

lemma of_char_digit_char: "d < 10 \<Longrightarrow> (of_char (digit_char d) :: nat) = 48 + d"
  by (simp add: digit_char_def)

lemma is_digit_digit_char: "d < 10 \<Longrightarrow> is_digit (digit_char d)"
  by (simp add: is_digit_def of_char_digit_char)

lemma not_space_digit: "is_digit ch \<Longrightarrow> \<not> is_space ch"
  by (auto simp: is_digit_def is_space_def)

lemma not_sign_digit: "is_digit ch \<Longrightarrow> ch \<noteq> CHR ''-'' \<and> ch \<noteq> CHR ''+''"
  by (auto simp: is_digit_def)

lemma show_nat_digits: "\<forall>ch \<in> set (show_nat n). is_digit ch"
proof (induction n rule: show_nat.induct)
  case (1 n)
  show ?case
  proof (cases "n < 10")
    case True
    then show ?thesis by (subst show_nat.simps) (simp add: is_digit_digit_char)
  next
    case False
    with 1 show ?thesis by (subst show_nat.simps) (simp add: is_digit_digit_char)
  qed
qed

lemma show_nat_nonempty: "show_nat n \<noteq> []"
  by (subst show_nat.simps) simp

lemma digits_value_snoc:
  "digits_value (ds @ [ch]) = 10 * digits_value ds + ((of_char ch :: nat) - 48)"
  by (simp add: digits_value_def)

lemma digits_value_show_nat: "digits_value (show_nat n) = n"
proof (induction n rule: show_nat.induct)
  case (1 n)
  show ?case
  proof (cases "n < 10")
    case True
    then show ?thesis by (subst show_nat.simps) (simp add: digits_value_def of_char_digit_char)
  next
    case False
    with 1 show ?thesis
      by (subst show_nat.simps) (simp add: digits_value_snoc of_char_digit_char)
  qed
qed

lemma takeWhile_all_digits: "\<forall>ch \<in> set ds. is_digit ch \<Longrightarrow> takeWhile is_digit ds = ds"
  by (simp add: takeWhile_eq_all_conv)

lemma round_to_double_exact: "n \<le> 2 ^ 53 \<Longrightarrow> round_to_double n = Num (int n)"
  by (simp add: round_to_double_def)

lemma parseInt_digits:
  assumes "ds \<noteq> []" and "\<forall>ch \<in> set ds. is_digit ch"
  shows "parseInt ds = round_to_double (digits_value ds)"
proof -
  from assms have d: "is_digit (hd ds)" by (cases ds) auto
  have 1: "dropWhile is_space ds = ds" using d assms(1) by (cases ds) (auto simp: not_space_digit)
  have 2: "takeWhile is_digit ds = ds" by (rule takeWhile_all_digits[OF assms(2)])
  have 3: "hd ds \<noteq> CHR ''-''" "hd ds \<noteq> CHR ''+''" using not_sign_digit[OF d] by auto
  show ?thesis
    by (simp add: parseInt_def 1 2 3 assms(1))
qed

lemma parseInt_neg_digits:
  assumes "ds \<noteq> []" and "\<forall>ch \<in> set ds. is_digit ch"
  shows "parseInt (CHR ''-'' # ds) = negate (round_to_double (digits_value ds))"
proof -
  have 1: "\<not> is_space (CHR ''-'')" by (simp add: is_space_def)
  have 2: "takeWhile is_digit ds = ds" by (rule takeWhile_all_digits[OF assms(2)])
  show ?thesis
    by (simp add: parseInt_def 1 2 assms(1))
qed

lemma parseInt_show_int:
  assumes "- (2 ^ 53) \<le> i" and "i \<le> 2 ^ 53"
  shows "parseInt (show_int i) = Num i"
proof (cases "i < 0")
  case True
  with assms have "nat (- i) \<le> 2 ^ 53" by simp
  with True show ?thesis
    by (simp add: show_int_def parseInt_neg_digits show_nat_nonempty show_nat_digits
          digits_value_show_nat round_to_double_exact)
next
  case False
  with assms have "nat i \<le> 2 ^ 53" by simp
  with False show ?thesis
    by (simp add: show_int_def parseInt_digits show_nat_nonempty show_nat_digits
          digits_value_show_nat round_to_double_exact)
qed

lemma parseInt_number: "parseInt (show_int (sint (n :: 54 word))) = Num (sint n)"
  using sint_ge[of n] sint_lt[of n] by (intro parseInt_show_int) simp_all

lemma parseInt_spaces: "list_all is_space ws \<Longrightarrow> parseInt (ws @ s) = parseInt s"
  by (simp add: parseInt_def dropWhile_append2 list_all_iff)

lemma parseInt_nan:
  assumes "s \<noteq> []" and "\<not> is_space (hd s)" and "\<not> is_digit (hd s)"
    and "hd s \<noteq> CHR ''-''" and "hd s \<noteq> CHR ''+''"
  shows "parseInt s = NaN"
  using assms by (cases s) (auto simp: parseInt_def Let_def)

lemma fsize_eq:
  "fsize (webdavResponseToFileInfo E r) =
     parseInt (js_ToString (js_or (getcontentlength (props (propstat r))) (JStr ''0'')))"
  by (simp add: webdavResponseToFileInfo_def Let_def)

lemma fsize_text:
  "getcontentlength (props (propstat r)) = JStr s \<Longrightarrow> s \<noteq> [] \<Longrightarrow>
     fsize (webdavResponseToFileInfo E r) = parseInt s"
  by (simp add: fsize_eq js_or_def)

lemma parseInt_zero: "parseInt ''0'' = Num 0"
  by (simp add: parseInt_def is_space_def is_digit_def digits_value_def round_to_double_def)

text \<open>
  C4, as the code has it.  The size of a mapped record is \<^verbatim>\<open>parseInt\<close> of the
  content-length property, with \<^verbatim>\<open>'0'\<close> standing in for a missing one.  It is 0 when
  the property is absent (or any other falsy value); it is the number itself when the
  parser delivered a number; when the property is a string of decimal digits, possibly
  after white space, it is the double nearest to the integer written, which is that
  integer up to \<open>2\<^sup>5\<^sup>3\<close>, and the negative of that when a minus sign precedes the digits;
  and it is \<^verbatim>\<open>NaN\<close>, not 0, when the property is a string that starts with neither white
  space, a sign nor a digit.
\<close>

theorem size_is_parseInt_of_content_length:
  "(\<not> truthy (getcontentlength (props (propstat r))) \<longrightarrow>
      fsize (webdavResponseToFileInfo E r) = Num 0) \<and>
   (getcontentlength (props (propstat r)) = JNum n \<longrightarrow>
      fsize (webdavResponseToFileInfo E r) = Num (sint n)) \<and>
   (getcontentlength (props (propstat r)) = JStr (ws @ ds) \<and> list_all is_space ws \<and>
    ds \<noteq> [] \<and> list_all is_digit ds \<longrightarrow>
      fsize (webdavResponseToFileInfo E r) = round_to_double (digits_value ds) \<and>
      (digits_value ds \<le> 2 ^ 53 \<longrightarrow>
         fsize (webdavResponseToFileInfo E r) = Num (int (digits_value ds)) \<and>
         0 \<le> int (digits_value ds))) \<and>
   (getcontentlength (props (propstat r)) = JStr (ws @ CHR ''-'' # ds) \<and> list_all is_space ws \<and>
    ds \<noteq> [] \<and> list_all is_digit ds \<longrightarrow>
      fsize (webdavResponseToFileInfo E r) = negate (round_to_double (digits_value ds))) \<and>
   (getcontentlength (props (propstat r)) = JStr s \<and> s \<noteq> [] \<and> \<not> is_space (hd s) \<and>
    \<not> is_digit (hd s) \<and> hd s \<noteq> CHR ''-'' \<and> hd s \<noteq> CHR ''+'' \<longrightarrow>
      fsize (webdavResponseToFileInfo E r) = NaN)"
proof (intro conjI impI)
  assume "\<not> truthy (getcontentlength (props (propstat r)))"
  then show "fsize (webdavResponseToFileInfo E r) = Num 0"
    by (simp add: fsize_eq js_or_def parseInt_zero)
next
  assume "getcontentlength (props (propstat r)) = JNum n"
  then show "fsize (webdavResponseToFileInfo E r) = Num (sint n)"
    by (cases "n = 0") (simp_all add: fsize_eq js_or_def parseInt_zero parseInt_number)
next
  assume a: "getcontentlength (props (propstat r)) = JStr (ws @ ds) \<and> list_all is_space ws \<and>
    ds \<noteq> [] \<and> list_all is_digit ds"
  then have "parseInt (ws @ ds) = round_to_double (digits_value ds)"
    by (simp add: parseInt_spaces parseInt_digits list_all_iff)
  with a show p: "fsize (webdavResponseToFileInfo E r) = round_to_double (digits_value ds)"
    by (simp add: fsize_text)
  assume "digits_value ds \<le> 2 ^ 53"
  with p show "fsize (webdavResponseToFileInfo E r) = Num (int (digits_value ds))"
    by (simp add: round_to_double_exact)
next
  show "0 \<le> int (digits_value ds)" by simp
next
  assume a: "getcontentlength (props (propstat r)) = JStr (ws @ CHR ''-'' # ds) \<and>
    list_all is_space ws \<and> ds \<noteq> [] \<and> list_all is_digit ds"
  then have "parseInt (ws @ CHR ''-'' # ds) = negate (round_to_double (digits_value ds))"
    by (simp add: parseInt_spaces parseInt_neg_digits list_all_iff)
  with a show "fsize (webdavResponseToFileInfo E r) = negate (round_to_double (digits_value ds))"
    by (simp add: fsize_text)
next
  assume a: "getcontentlength (props (propstat r)) = JStr s \<and> s \<noteq> [] \<and> \<not> is_space (hd s) \<and>
    \<not> is_digit (hd s) \<and> hd s \<noteq> CHR ''-'' \<and> hd s \<noteq> CHR ''+''"
  then have "parseInt s = NaN" by (intro parseInt_nan) simp_all
  with a show "fsize (webdavResponseToFileInfo E r) = NaN"
    by (simp add: fsize_text)
qed

theorem size_is_parseInt_of_content_length_witness:
  "fsize (webdavResponseToFileInfo (sample_env []) (sample_record JUndefined)) = Num 0 \<and>
   fsize (webdavResponseToFileInfo (sample_env []) (sample_record (JNum 10240))) = Num 10240 \<and>
   fsize (webdavResponseToFileInfo (sample_env []) (sample_record (JStr ''10240''))) = Num 10240 \<and>
   fsize (webdavResponseToFileInfo (sample_env []) (sample_record (JStr (CHR 0xA0 # ''42'')))) =
     Num 42 \<and>
   fsize (webdavResponseToFileInfo (sample_env []) (sample_record (JStr ''9007199254740993''))) =
     Num 9007199254740992 \<and>
   fsize (webdavResponseToFileInfo (sample_env []) (sample_record (JStr ''-5''))) = Num (- 5) \<and>
   fsize (webdavResponseToFileInfo (sample_env []) (sample_record (JStr ''unknown''))) = NaN"
  using size_is_parseInt_of_content_length
          [where r = "sample_record JUndefined" and E = "sample_env []" and n = 0
             and ws = "[]" and ds = "[]" and s = "[]"]
        size_is_parseInt_of_content_length
          [where r = "sample_record (JNum 10240)" and E = "sample_env []" and n = 10240
             and ws = "[]" and ds = "[]" and s = "[]"]
        size_is_parseInt_of_content_length
          [where r = "sample_record (JStr ''10240'')" and E = "sample_env []" and n = 0
             and ws = "[]" and ds = "''10240''" and s = "[]"]
        size_is_parseInt_of_content_length
          [where r = "sample_record (JStr (CHR 0xA0 # ''42''))" and E = "sample_env []" and n = 0
             and ws = "[CHR 0xA0]" and ds = "''42''" and s = "[]"]
        size_is_parseInt_of_content_length
          [where r = "sample_record (JStr ''9007199254740993'')" and E = "sample_env []" and n = 0
             and ws = "[]" and ds = "''9007199254740993''" and s = "[]"]
        size_is_parseInt_of_content_length
          [where r = "sample_record (JStr ''-5'')" and E = "sample_env []" and n = 0
             and ws = "[]" and ds = "''5''" and s = "[]"]
        size_is_parseInt_of_content_length
          [where r = "sample_record (JStr ''unknown'')" and E = "sample_env []" and n = 0
             and ws = "[]" and ds = "[]" and s = "''unknown''"]
  by (simp add: sample_record_def is_digit_def is_space_def digits_value_def
        round_to_double_def bit_length.simps Let_def)

text \<open>
  The property as the spec words it, a size of 0 for a content-length that does not parse,
  fails on the text \<^verbatim>\<open>unknown\<close>: the size is \<^verbatim>\<open>NaN\<close>.
\<close>

theorem size_of_unparsable_length_counterexample:
  "fsize (webdavResponseToFileInfo (sample_env []) (sample_record (JStr ''unknown''))) \<noteq> Num 0"
  by (simp add: fsize_eq sample_record_def js_or_def parseInt_def is_space_def is_digit_def)

section \<open>Absolute URLs and the headers of move and copy\<close>

lemma not_scheme_colon: "\<not> is_scheme_char (CHR '':'')"
  by (simp add: is_scheme_char_def is_alpha_def is_digit_def)

lemma is_absolute_url_iff:
  "is_absolute_url s \<longleftrightarrow>
     (\<exists>ch cs x. s = ch # cs @ CHR '':'' # x \<and> is_alpha ch \<and> (\<forall>c \<in> set cs. is_scheme_char c))"
proof
  assume a: "is_absolute_url s"
  then obtain ch r where s: "s = ch # r" by (cases s) (auto simp: is_absolute_url_def)
  with a obtain x where al: "is_alpha ch" and d: "dropWhile is_scheme_char r = CHR '':'' # x"
    by (auto simp: is_absolute_url_def split: list.splits)
  have "r = takeWhile is_scheme_char r @ CHR '':'' # x"
    using takeWhile_dropWhile_id[of is_scheme_char r] d by simp
  moreover have "\<forall>c \<in> set (takeWhile is_scheme_char r). is_scheme_char c"
    by (auto dest: set_takeWhileD)
  ultimately show "\<exists>ch cs x. s = ch # cs @ CHR '':'' # x \<and> is_alpha ch \<and> (\<forall>c \<in> set cs. is_scheme_char c)"
    using s al by blast
next
  assume "\<exists>ch cs x. s = ch # cs @ CHR '':'' # x \<and> is_alpha ch \<and> (\<forall>c \<in> set cs. is_scheme_char c)"
  then obtain ch cs x where s: "s = ch # cs @ CHR '':'' # x" and al: "is_alpha ch"
    and cs: "\<forall>c \<in> set cs. is_scheme_char c" by blast
  have "dropWhile is_scheme_char (cs @ CHR '':'' # x) = CHR '':'' # x"
    using cs by (simp add: dropWhile_append2 not_scheme_colon)
  with s al show "is_absolute_url s" by (simp add: is_absolute_url_def)
qed

lemma is_absolute_url_append: "is_absolute_url b \<Longrightarrow> is_absolute_url (b @ p)"
  unfolding is_absolute_url_iff by (metis append.assoc append_Cons)

lemma is_absolute_url_strip: "is_absolute_url b \<Longrightarrow> is_absolute_url (strip_trailing_slash b)"
proof (cases "b \<noteq> [] \<and> last b = CHR ''/''")
  case False
  assume "is_absolute_url b"
  with False show ?thesis by (auto simp: strip_trailing_slash_def)
next
  case True
  assume "is_absolute_url b"
  then obtain ch cs x where b: "b = ch # cs @ CHR '':'' # x" and al: "is_alpha ch"
    and cs: "\<forall>c \<in> set cs. is_scheme_char c" unfolding is_absolute_url_iff by blast
  from True b have x: "x \<noteq> []" by (cases x) auto
  then have "butlast b = ch # cs @ CHR '':'' # butlast x"
    using b by (simp add: butlast_append)
  then have "is_absolute_url (butlast b)" unfolding is_absolute_url_iff using al cs by blast
  with True show ?thesis by (simp add: strip_trailing_slash_def)
qed

lemma startsWith_append: "startsWith p q \<Longrightarrow> p = q @ drop (length q) p"
  unfolding startsWith_def by (metis append_take_drop_id)

lemma http_is_absolute: "startsWith p ''http://'' \<Longrightarrow> is_absolute_url p"
proof -
  assume "startsWith p ''http://''"
  then obtain x where "p = ''http://'' @ x"
    using startsWith_append[of p "''http://''"] by blast
  then have "p = CHR ''h'' # ''ttp'' @ CHR '':'' # (''//'' @ x)" by simp
  moreover have "is_alpha (CHR ''h'')" by (simp add: is_alpha_def)
  moreover have "\<forall>c \<in> set ''ttp''. is_scheme_char c" by (simp add: is_scheme_char_def is_alpha_def)
  ultimately show ?thesis unfolding is_absolute_url_iff by blast
qed

lemma https_is_absolute: "startsWith p ''https://'' \<Longrightarrow> is_absolute_url p"
proof -
  assume "startsWith p ''https://''"
  then obtain x where "p = ''https://'' @ x"
    using startsWith_append[of p "''https://''"] by blast
  then have "p = CHR ''h'' # ''ttps'' @ CHR '':'' # (''//'' @ x)" by simp
  moreover have "is_alpha (CHR ''h'')" by (simp add: is_alpha_def)
  moreover have "\<forall>c \<in> set ''ttps''. is_scheme_char c" by (simp add: is_scheme_char_def is_alpha_def)
  ultimately show ?thesis unfolding is_absolute_url_iff by blast
qed

lemma createAbsoluteUrl_absolute:
  assumes "is_absolute_url (baseURL c)" and "url_contract E"
  shows "is_absolute_url (createAbsoluteUrl E c dst)"
proof (cases "startsWith dst ''http://'' \<or> startsWith dst ''https://''")
  case True
  then show ?thesis by (auto simp: createAbsoluteUrl_def http_is_absolute https_is_absolute)
next
  case False
  show ?thesis
  proof (cases "new_URL E dst (baseURL c)")
    case None
    with False show ?thesis
      using is_absolute_url_append[OF is_absolute_url_strip[OF assms(1)]]
      by (simp add: createAbsoluteUrl_def)
  next
    case (Some u)
    with assms(2) have "is_absolute_url u" unfolding url_contract_def by blast
    with False Some show ?thesis by (simp add: createAbsoluteUrl_def)
  qed
qed

lemma sample_url_contract: "url_contract (sample_env docs)"
proof -
  have "is_absolute_url (url_origin b @ p)" if "is_absolute_url b" for b p
  proof -
    from that obtain ch r where b: "b = ch # r" and al: "is_alpha ch"
      by (cases b) (auto simp: is_absolute_url_def)
    have "\<forall>c \<in> set (takeWhile is_scheme_char r). is_scheme_char c" by (auto dest: set_takeWhileD)
    then have "\<exists>x. url_origin b @ p = ch # takeWhile is_scheme_char r @ CHR '':'' # x"
      using b by (simp add: url_origin_def Let_def)
    then show ?thesis unfolding is_absolute_url_iff using al
      by (metis \<open>\<forall>c \<in> set (takeWhile is_scheme_char r). is_scheme_char c\<close>)
  qed
  then show ?thesis
    by (auto simp: url_contract_def sample_env_def sample_URL_def is_absolute_url_append
             split: if_splits)
qed

subsection \<open>Move and copy\<close>

lemma transmit_no_data:
  "data req = NoData \<Longrightarrow> snd (axios_request S req sent) = sent @ [req]"
  by (cases "S sent req") (auto simp: axios_request_no_data)

lemma snd_scatch_throw:
  "snd (scatch (sbind m (\<lambda>_. sreturn ())) (\<lambda>error. sthrow (h error)) sent) = snd (m sent)"
  by (cases "m sent") (auto simp: scatch_def sbind_def sreturn_def sthrow_def split: sum.splits)

lemma moveFile_sent:
  "snd (moveFile E S c src dst ow sent) =
     sent @ [mk_request c ''MOVE'' src (transfer_headers E c dst ow) NoData]"
  unfolding moveFile_def by (simp add: snd_scatch_throw transmit_no_data)

lemma copyFile_sent:
  "snd (copyFile E S c src dst ow sent) =
     sent @ [mk_request c ''COPY'' src (transfer_headers E c dst ow) NoData]"
  unfolding copyFile_def by (simp add: snd_scatch_throw transmit_no_data)

lemma moveFile_request:
  "\<exists>r. snd (moveFile E S c src dst ow sent) = sent @ [r] \<and>
       http_method r = ''MOVE'' \<and> url r = src \<and> data r = NoData \<and>
       headers r = (''Destination'', createAbsoluteUrl E c dst) #
                   (case ow of None \<Rightarrow> [] | Some b \<Rightarrow> [(''Overwrite'', if b then ''T'' else ''F'')])"
  by (simp add: moveFile_sent transfer_headers_def)

lemma copyFile_request:
  "\<exists>r. snd (copyFile E S c src dst ow sent) = sent @ [r] \<and>
       http_method r = ''COPY'' \<and> url r = src \<and> data r = NoData \<and>
       headers r = (''Destination'', createAbsoluteUrl E c dst) #
                   (case ow of None \<Rightarrow> [] | Some b \<Rightarrow> [(''Overwrite'', if b then ''T'' else ''F'')])"
  by (simp add: copyFile_sent transfer_headers_def)

text \<open>
  C8, as the code has it.  \<^verbatim>\<open>moveFile\<close> and \<^verbatim>\<open>copyFile\<close> transmit one \<^verbatim>\<open>MOVE\<close> or
  \<^verbatim>\<open>COPY\<close> request for the source, without payload, whose headers are \<^verbatim>\<open>Destination\<close>
  and, when the overwrite flag is given, \<^verbatim>\<open>Overwrite\<close> with \<^verbatim>\<open>T\<close> for true and \<^verbatim>\<open>F\<close>
  for false.  The \<^verbatim>\<open>Destination\<close> is the destination itself when that starts with
  \<^verbatim>\<open>http://\<close> or \<^verbatim>\<open>https://\<close>; otherwise it is what the URL constructor resolves the
  destination to against the base URL, or, when the constructor throws, the base URL and
  the destination joined by one slash.  With a base URL that is an absolute URL the header
  is an absolute URL in each case, and differs from a destination that is not one.
\<close>

theorem destination_is_absolute_url:
  assumes "url_contract E"
  shows "(\<exists>r. snd (moveFile E S c src dst ow sent) = sent @ [r] \<and>
              http_method r = ''MOVE'' \<and> url r = src \<and> data r = NoData \<and>
              headers r = (''Destination'', createAbsoluteUrl E c dst) #
                          (case ow of None \<Rightarrow> []
                           | Some b \<Rightarrow> [(''Overwrite'', if b then ''T'' else ''F'')])) \<and>
         (\<exists>r. snd (copyFile E S c src dst ow sent) = sent @ [r] \<and>
              http_method r = ''COPY'' \<and> url r = src \<and> data r = NoData \<and>
              headers r = (''Destination'', createAbsoluteUrl E c dst) #
                          (case ow of None \<Rightarrow> []
                           | Some b \<Rightarrow> [(''Overwrite'', if b then ''T'' else ''F'')])) \<and>
         (startsWith dst ''http://'' \<or> startsWith dst ''https://'' \<longrightarrow>
            createAbsoluteUrl E c dst = dst) \<and>
         (\<not> startsWith dst ''http://'' \<and> \<not> startsWith dst ''https://'' \<longrightarrow>
            createAbsoluteUrl E c dst =
              (case new_URL E dst (baseURL c) of
                 Some u \<Rightarrow> u
               | None \<Rightarrow> strip_trailing_slash (baseURL c) @ ''/'' @ strip_leading_slash dst)) \<and>
         (is_absolute_url (baseURL c) \<longrightarrow>
            is_absolute_url (createAbsoluteUrl E c dst) \<and>
            (\<not> is_absolute_url dst \<longrightarrow> createAbsoluteUrl E c dst \<noteq> dst))"
proof (intro conjI impI)
  show "\<exists>r. snd (moveFile E S c src dst ow sent) = sent @ [r] \<and>
              http_method r = ''MOVE'' \<and> url r = src \<and> data r = NoData \<and>
              headers r = (''Destination'', createAbsoluteUrl E c dst) #
                          (case ow of None \<Rightarrow> []
                           | Some b \<Rightarrow> [(''Overwrite'', if b then ''T'' else ''F'')])"
    by (rule moveFile_request)
  show "\<exists>r. snd (copyFile E S c src dst ow sent) = sent @ [r] \<and>
              http_method r = ''COPY'' \<and> url r = src \<and> data r = NoData \<and>
              headers r = (''Destination'', createAbsoluteUrl E c dst) #
                          (case ow of None \<Rightarrow> []
                           | Some b \<Rightarrow> [(''Overwrite'', if b then ''T'' else ''F'')])"
    by (rule copyFile_request)
next
  assume "startsWith dst ''http://'' \<or> startsWith dst ''https://''"
  then show "createAbsoluteUrl E c dst = dst" by (auto simp: createAbsoluteUrl_def)
next
  assume "\<not> startsWith dst ''http://'' \<and> \<not> startsWith dst ''https://''"
  then show "createAbsoluteUrl E c dst =
              (case new_URL E dst (baseURL c) of
                 Some u \<Rightarrow> u
               | None \<Rightarrow> strip_trailing_slash (baseURL c) @ ''/'' @ strip_leading_slash dst)"
    by (simp add: createAbsoluteUrl_def)
next
  assume b: "is_absolute_url (baseURL c)"
  show a: "is_absolute_url (createAbsoluteUrl E c dst)"
    by (rule createAbsoluteUrl_absolute[OF b assms])
  assume "\<not> is_absolute_url dst"
  with a show "createAbsoluteUrl E c dst \<noteq> dst" by auto
qed

section \<open>Moving onto an existing destination\<close>

text \<open>
  C9, as the code has it.  The client's \<^verbatim>\<open>moveFile\<close> with the overwrite flag false makes
  no existence check: it always transmits the \<^verbatim>\<open>MOVE\<close> request, with \<^verbatim>\<open>Overwrite: F\<close>,
  and leaves the decision to the server.  It is the node's move operation that checks:
  when source and destination both exist and the flag is false it throws a
  \<^verbatim>\<open>NodeOperationError\<close> after the two \<^verbatim>\<open>HEAD\<close> requests, and no \<^verbatim>\<open>MOVE\<close> is sent.
\<close>

theorem move_without_overwrite:
  "snd (moveFile E S c src dst (Some False) sent) =
     sent @ [mk_request c ''MOVE'' src
               [(''Destination'', createAbsoluteUrl E c dst), (''Overwrite'', ''F'')] NoData] \<and>
   (exists S c src sent = (Inr True, sent1) \<and> exists S c dst sent1 = (Inr True, sent2) \<longrightarrow>
      move_operation E S c src dst False cpf sent =
        (Inl (NodeOperationError
               (''Target file '' @ dst @ '' already exists. Set the Overwrite flag to overwrite.'')),
         sent @ [mk_request c ''HEAD'' src [] NoData, mk_request c ''HEAD'' dst [] NoData]))"
proof (intro conjI impI)
  show "snd (moveFile E S c src dst (Some False) sent) =
     sent @ [mk_request c ''MOVE'' src
               [(''Destination'', createAbsoluteUrl E c dst), (''Overwrite'', ''F'')] NoData]"
    using moveFile_sent[of E S c src dst "Some False" sent] by (simp add: transfer_headers_def)
next
  assume a: "exists S c src sent = (Inr True, sent1) \<and> exists S c dst sent1 = (Inr True, sent2)"
  then have 1: "sent1 = sent @ [mk_request c ''HEAD'' src [] NoData]"
    and 2: "sent2 = sent1 @ [mk_request c ''HEAD'' dst [] NoData]"
    by (simp_all add: exists_eq)
  show "move_operation E S c src dst False cpf sent =
        (Inl (NodeOperationError
               (''Target file '' @ dst @ '' already exists. Set the Overwrite flag to overwrite.'')),
         sent @ [mk_request c ''HEAD'' src [] NoData, mk_request c ''HEAD'' dst [] NoData])"
    using a 1 2 by (simp add: move_operation_def sbind_def sthrow_def)
qed

section \<open>Body-size limits\<close>

lemma snd_rethrow [simp]: "snd (rethrow ctx e sent) = sent"
  by (cases e) (simp_all add: sthrow_def)

lemma too_large_not_sent:
  "maxBodyLength req < enat (payload_size (data req)) \<Longrightarrow>
     axios_request S req sent =
       (Inl (AxiosError ''Request body larger than maxBodyLength limit'' None), sent)"
  by (simp add: axios_request_def)

lemma within_limit_sent:
  "\<not> maxBodyLength req < enat (payload_size (data req)) \<Longrightarrow>
     snd (axios_request S req sent) = sent @ [req]"
  by (cases "S sent req") (auto simp: axios_request_def)

lemma response_too_large:
  assumes "\<not> maxBodyLength req < enat (payload_size (data req))"
    and "S sent req = Reply st st_text body" and "http_method req \<noteq> ''HEAD''"
    and "maxContentLength req < enat (length body)"
  shows "axios_request S req sent =
           (Inl (AxiosError (''maxContentLength size of '' @
                             show_limit (maxContentLength req) @ '' exceeded'') None),
            sent @ [req])"
  using assms by (simp add: axios_request_def)

lemma check_not_exists_eq:
  "check_not_exists S c filePath ow sent =
     (if ow = Some True then (Inr (), sent)
      else if fst (exists S c filePath sent) = Inr True
      then (Inl (WebDAVError (''File '' @ filePath @ '' already exists'')
                   (Some 409) (Some ''Conflict'') None),
            sent @ [mk_request c ''HEAD'' filePath [] NoData])
      else (Inr (), sent @ [mk_request c ''HEAD'' filePath [] NoData]))"
  by (cases "S sent (mk_request c ''HEAD'' filePath [] NoData)")
     (auto simp: check_not_exists_def sbind_def sreturn_def sthrow_def exists_eq)

text \<open>
  C10, as the code has it.  The client's limits are the configured ones, or 524288000
  each when the option is missing or 0, and every call through the client's axios
  instance is made under them: a call whose payload exceeds the request limit is not
  transmitted.  So a \<^verbatim>\<open>putFileContents\<close> whose data exceeds the limit transmits no
  \<^verbatim>\<open>PUT\<close> (only the \<^verbatim>\<open>HEAD\<close> of its existence check, when the overwrite flag is not
  true), and a \<^verbatim>\<open>stat\<close> or \<^verbatim>\<open>getDirectoryContents\<close> whose request body exceeds it
  transmits nothing; a \<^verbatim>\<open>stat\<close> or \<^verbatim>\<open>getFileContents\<close> whose response body exceeds the
  response limit fails after its request was sent.  \<^verbatim>\<open>putFileStream\<close> sets both limits
  of its \<^verbatim>\<open>PUT\<close> to infinity: the \<^verbatim>\<open>PUT\<close> is transmitted whatever the size of the
  stream, and succeeds whatever the size of the response.
\<close>

theorem body_limit_enforced_except_stream:
  "cfg_maxBodyLength (createClient base options) = or_default (opt_maxBodyLength options) \<and>
   cfg_maxContentLength (createClient base options) = or_default (opt_maxContentLength options) \<and>
   (cfg_maxBodyLength c < enat (payload_size d) \<longrightarrow>
      axios_request S (mk_request c m u hs d) sent =
        (Inl (AxiosError ''Request body larger than maxBodyLength limit'' None), sent)) \<and>
   (cfg_maxBodyLength c < enat (length bytes) \<longrightarrow>
      putFileContents S c filePath bytes ow sent =
        (if ow \<noteq> Some True \<and> fst (exists S c filePath sent) = Inr True
         then (Inl (WebDAVError (''File '' @ filePath @ '' already exists'')
                      (Some 409) (Some ''Conflict'') None),
               sent @ [mk_request c ''HEAD'' filePath [] NoData])
         else (Inl (WebDAVError
                      ''Failed to upload the file contents: Request body larger than maxBodyLength limit''
                      None None None),
               if ow = Some True then sent
               else sent @ [mk_request c ''HEAD'' filePath [] NoData]))) \<and>
   (cfg_maxBodyLength c < enat (length propfind_body) \<longrightarrow>
      stat E S c filePath sent =
        (Inl (WebDAVError
                ''Failed to get information about the file: Request body larger than maxBodyLength limit''
                None None None), sent) \<and>
      getDirectoryContents E S c filePath deep sent =
        (Inl (WebDAVError
                ''Failed to get the directory contents: Request body larger than maxBodyLength limit''
                None None None), sent)) \<and>
   (\<not> cfg_maxBodyLength c < enat (length propfind_body) \<and>
    S sent (mk_request c ''PROPFIND'' filePath
              [(''Depth'', ''0''), (''Content-Type'', ''application/xml; charset=utf-8'')]
              (Data propfind_body)) = Reply st st_text body \<and>
    cfg_maxContentLength c < enat (length body) \<longrightarrow>
      stat E S c filePath sent =
        (Inl (WebDAVError
                (''Failed to get information about the file: maxContentLength size of '' @
                 show_limit (cfg_maxContentLength c) @ '' exceeded'') None None None),
         sent @ [mk_request c ''PROPFIND'' filePath
                   [(''Depth'', ''0''), (''Content-Type'', ''application/xml; charset=utf-8'')]
                   (Data propfind_body)])) \<and>
   (S sent (mk_request c ''GET'' filePath [] NoData) = Reply st st_text body \<and>
    cfg_maxContentLength c < enat (length body) \<longrightarrow>
      getFileContents S c filePath sent =
        (Inl (WebDAVError
                (''Failed to get the file contents: maxContentLength size of '' @
                 show_limit (cfg_maxContentLength c) @ '' exceeded'') None None None),
         sent @ [mk_request c ''GET'' filePath [] NoData])) \<and>
   (ow = Some True \<or> fst (exists S c filePath sent) = Inr False \<longrightarrow>
      snd (putFileStream S c filePath bytes ow sent) =
        (if ow = Some True then sent else sent @ [mk_request c ''HEAD'' filePath [] NoData]) @
        [\<lparr> http_method = ''PUT'', url = filePath,
           headers = [(''Content-Type'', ''application/octet-stream'')],
           data = Stream bytes, maxBodyLength = \<infinity>, maxContentLength = \<infinity> \<rparr>] \<and>
      (\<forall>code reason answer.
         S (if ow = Some True then sent else sent @ [mk_request c ''HEAD'' filePath [] NoData])
           \<lparr> http_method = ''PUT'', url = filePath,
             headers = [(''Content-Type'', ''application/octet-stream'')],
             data = Stream bytes, maxBodyLength = \<infinity>, maxContentLength = \<infinity> \<rparr> =
           Reply code reason answer \<and> 200 \<le> code \<and> code < 300 \<longrightarrow>
         fst (putFileStream S c filePath bytes ow sent) = Inr ()))"
proof (intro conjI impI allI)
  show "cfg_maxBodyLength (createClient base options) = or_default (opt_maxBodyLength options)"
    by (simp add: createClient_def WebDAVClient_def Let_def)
  show "cfg_maxContentLength (createClient base options) = or_default (opt_maxContentLength options)"
    by (simp add: createClient_def WebDAVClient_def Let_def)
next
  assume "cfg_maxBodyLength c < enat (payload_size d)"
  then show "axios_request S (mk_request c m u hs d) sent =
        (Inl (AxiosError ''Request body larger than maxBodyLength limit'' None), sent)"
    by (intro too_large_not_sent) simp
next
  assume "cfg_maxBodyLength c < enat (length bytes)"
  then have "axios_request S (mk_request c ''PUT'' filePath
                 [(''Content-Type'', ''application/octet-stream'')] (Data bytes)) sent' =
       (Inl (AxiosError ''Request body larger than maxBodyLength limit'' None), sent')" for sent'
    by (intro too_large_not_sent) simp
  then show "putFileContents S c filePath bytes ow sent =
        (if ow \<noteq> Some True \<and> fst (exists S c filePath sent) = Inr True
         then (Inl (WebDAVError (''File '' @ filePath @ '' already exists'')
                      (Some 409) (Some ''Conflict'') None),
               sent @ [mk_request c ''HEAD'' filePath [] NoData])
         else (Inl (WebDAVError
                      ''Failed to upload the file contents: Request body larger than maxBodyLength limit''
                      None None None),
               if ow = Some True then sent
               else sent @ [mk_request c ''HEAD'' filePath [] NoData]))"
    by (simp add: putFileContents_def check_not_exists_eq scatch_def sbind_def sreturn_def
          sthrow_def status_message_def)
next
  assume a: "cfg_maxBodyLength c < enat (length propfind_body)"
  then have p: "propfind S c u depth sent =
       (Inl (AxiosError ''Request body larger than maxBodyLength limit'' None), sent)" for u depth
    unfolding propfind_def by (intro too_large_not_sent) simp
  show "stat E S c filePath sent =
        (Inl (WebDAVError
                ''Failed to get information about the file: Request body larger than maxBodyLength limit''
                None None None), sent)"
    by (simp add: stat_def scatch_def sbind_def p sthrow_def status_message_def)
  show "getDirectoryContents E S c filePath deep sent =
        (Inl (WebDAVError
                ''Failed to get the directory contents: Request body larger than maxBodyLength limit''
                None None None), sent)"
    by (simp add: getDirectoryContents_def Let_def scatch_def sbind_def p sthrow_def status_message_def)
next
  let ?req = "mk_request c ''PROPFIND'' filePath
              [(''Depth'', ''0''), (''Content-Type'', ''application/xml; charset=utf-8'')]
              (Data propfind_body)"
  assume a: "\<not> cfg_maxBodyLength c < enat (length propfind_body) \<and>
    S sent ?req = Reply st st_text body \<and> cfg_maxContentLength c < enat (length body)"
  then have "axios_request S ?req sent =
      (Inl (AxiosError (''maxContentLength size of '' @
                             show_limit (maxContentLength ?req) @ '' exceeded'') None),
            sent @ [?req])"
    by (intro response_too_large[where st = st and st_text = st_text and body = body]) simp_all
  then show "stat E S c filePath sent =
        (Inl (WebDAVError
                (''Failed to get information about the file: maxContentLength size of '' @
                 show_limit (cfg_maxContentLength c) @ '' exceeded'') None None None),
         sent @ [?req])"
    by (simp add: stat_def propfind_def scatch_def sbind_def sthrow_def status_message_def)
next
  let ?req = "mk_request c ''GET'' filePath [] NoData"
  assume a: "S sent ?req = Reply st st_text body \<and> cfg_maxContentLength c < enat (length body)"
  then have "axios_request S ?req sent =
      (Inl (AxiosError (''maxContentLength size of '' @
                             show_limit (maxContentLength ?req) @ '' exceeded'') None),
            sent @ [?req])"
    by (intro response_too_large[where st = st and st_text = st_text and body = body])
       (simp_all add: zero_enat_def[symmetric])
  then show "getFileContents S c filePath sent =
        (Inl (WebDAVError
                (''Failed to get the file contents: maxContentLength size of '' @
                 show_limit (cfg_maxContentLength c) @ '' exceeded'') None None None),
         sent @ [?req])"
    by (simp add: getFileContents_def scatch_def sbind_def sthrow_def status_message_def)
next
  let ?req = "\<lparr> http_method = ''PUT'', url = filePath,
           headers = [(''Content-Type'', ''application/octet-stream'')],
           data = Stream bytes, maxBodyLength = \<infinity>, maxContentLength = \<infinity> \<rparr>"
  let ?sent = "if ow = Some True then sent else sent @ [mk_request c ''HEAD'' filePath [] NoData]"
  have r: "(mk_request c ''PUT'' filePath [(''Content-Type'', ''application/octet-stream'')] (Stream bytes))
             \<lparr> maxBodyLength := \<infinity>, maxContentLength := \<infinity> \<rparr> = ?req"
    by (simp add: mk_request_def)
  assume a: "ow = Some True \<or> fst (exists S c filePath sent) = Inr False"
  then have chk: "check_not_exists S c filePath ow sent = (Inr (), ?sent)"
    by (auto simp: check_not_exists_eq)
  have "snd (axios_request S ?req ?sent) = ?sent @ [?req]"
    by (intro within_limit_sent) simp
  then show "snd (putFileStream S c filePath bytes ow sent) = ?sent @ [?req]"
    by (cases "axios_request S ?req ?sent")
       (auto simp: putFileStream_def chk r scatch_def sbind_def sreturn_def
          split: sum.splits js_error.splits)
  fix code reason answer
  assume "S ?sent ?req = Reply code reason answer \<and> 200 \<le> code \<and> code < 300"
  then have "axios_request S ?req ?sent = (Inr (code, reason, answer), ?sent @ [?req])"
    by (simp add: axios_request_def)
  then show "fst (putFileStream S c filePath bytes ow sent) = Inr ()"
    by (simp add: putFileStream_def chk r scatch_def sbind_def sreturn_def)
qed

section \<open>Selection of the property-status block\<close>

lemma is_block_success:
  assumes "is_block ps"
  shows "is_success ps = Inr (status_contains_200 ps)"
proof (cases "getField ps (spellings ''status'')")
  case (Inl e)
  with assms show ?thesis by (auto simp: is_block_def split: jsval.splits)
next
  case (Inr v)
  with assms have "v = JUndefined \<or> (\<exists>s. v = JStr s)"
    by (cases v) (auto simp: is_block_def split: jsval.splits)
  then show ?thesis
  proof
    assume "v = JUndefined"
    with Inr show ?thesis by (simp add: is_success_def status_contains_200_def bind_def)
  next
    assume "\<exists>s. v = JStr s"
    then obtain s where "v = JStr s" by blast
    with Inr show ?thesis
      by (cases s) (simp_all add: is_success_def status_contains_200_def bind_def)
  qed
qed

lemma is_block_truthy: "is_block ps \<Longrightarrow> truthy ps"
  by (auto simp: is_block_def split: jsval.splits)

lemma find_success_blocks:
  "list_all is_block blocks \<Longrightarrow>
     find_success blocks =
       Inr (case find status_contains_200 blocks of None \<Rightarrow> JUndefined | Some b \<Rightarrow> b)"
  by (induction blocks) (auto simp: bind_def is_block_success)

lemma find_is_block:
  "list_all is_block blocks \<Longrightarrow> find P blocks = Some b \<Longrightarrow> is_block b"
  by (induction blocks) (auto split: if_splits)

lemma successPropstat_blocks:
  assumes "list_all is_block (as_array propstat_v)" and "as_array propstat_v \<noteq> []"
  shows "successPropstat propstat_v =
           Inr (case find status_contains_200 (as_array propstat_v) of
                  None \<Rightarrow> hd (as_array propstat_v) | Some b \<Rightarrow> b)"
proof -
  have fs: "find_success (as_array propstat_v) =
              Inr (case find status_contains_200 (as_array propstat_v) of
                     None \<Rightarrow> JUndefined | Some b \<Rightarrow> b)"
    by (rule find_success_blocks[OF assms(1)])
  have fu: "first_or_undefined (as_array propstat_v) = hd (as_array propstat_v)"
    using assms(2) by (cases "as_array propstat_v") (simp_all add: first_or_undefined_def)
  show ?thesis
  proof (cases "find status_contains_200 (as_array propstat_v)")
    case None
    then show ?thesis
      by (simp add: successPropstat_def Let_def fs fu bind_def js_or_def)
  next
    case (Some b)
    with assms(1) have "truthy b" by (auto dest: find_is_block is_block_truthy)
    with Some show ?thesis
      by (simp add: successPropstat_def Let_def fs bind_def js_or_def)
  qed
qed

text \<open>
  C6.  For a record whose property-status blocks are elements with a textual status (or
  none), the block the properties are read from is the first one whose status line
  contains \<^verbatim>\<open>200\<close>, and the first block when no status line does; the normalised record
  is extracted from that block.
\<close>

theorem success_block_selected:
  assumes "list_all is_block (as_array propstat_v)" and "as_array propstat_v \<noteq> []"
  shows "successPropstat propstat_v =
           Inr (case find status_contains_200 (as_array propstat_v) of
                  None \<Rightarrow> hd (as_array propstat_v) | Some b \<Rightarrow> b) \<and>
         (getField response (spellings ''href'') = Inr href_v \<and>
          getField response (spellings ''propstat'') = Inr propstat_v \<longrightarrow>
            normalizeWebDAVResponse E response =
              extract_record E href_v
                (case find status_contains_200 (as_array propstat_v) of
                   None \<Rightarrow> hd (as_array propstat_v) | Some b \<Rightarrow> b))"
  using successPropstat_blocks[OF assms]
  by (simp add: normalizeWebDAVResponse_def bind_def)

section \<open>Directory listings\<close>

lemma endsWith_slash: "endsWith s ''/'' \<longleftrightarrow> s \<noteq> [] \<and> last s = CHR ''/''"
proof (cases s rule: rev_cases)
  case Nil
  then show ?thesis by (simp add: endsWith_def)
next
  case (snoc ys y)
  then show ?thesis by (simp add: endsWith_def)
qed

lemma normalize_dir_last: "normalize_dir d \<noteq> [] \<and> last (normalize_dir d) = CHR ''/''"
  by (auto simp: normalize_dir_def endsWith_slash)

lemma is_self_iff: "is_self dir (normalize_dir dir) h \<longleftrightarrow> denotes_dir dir h"
proof -
  obtain m where n: "normalize_dir dir = m @ ''/''"
    using normalize_dir_last[of dir] by (metis append_butlast_last_id)
  show ?thesis unfolding is_self_def denotes_dir_def n by auto
qed

lemma collect_files_eq:
  "collect_files E d n rs =
     map (webdavResponseToFileInfo E) (filter (\<lambda>r. \<not> is_self d n (href r)) rs)"
  by (induction rs) auto

lemma filename_eq: "filename (webdavResponseToFileInfo E r) = href r"
  by (simp add: webdavResponseToFileInfo_def Let_def)

lemma axios_request_Inr:
  "axios_request S req sent = (Inr (st, txt, body), sent') \<Longrightarrow>
     S sent req = Reply st txt body \<and> 200 \<le> st \<and> st < 300 \<and> sent' = sent @ [req]"
  by (auto simp: axios_request_def split: if_splits reply.splits)

lemma scatch_rethrow_Inr:
  assumes "scatch m (rethrow ctx) sent = (Inr v, sent')"
  shows "m sent = (Inr v, sent')"
proof (cases "m sent")
  case (Pair r s)
  show ?thesis
  proof (cases r)
    case (Inl e)
    with Pair assms have r: "rethrow ctx e s = (Inr v, sent')" by (simp add: scatch_def)
    then show ?thesis by (cases e) (simp_all add: sthrow_def)
  next
    case (Inr x)
    with Pair assms show ?thesis by (simp add: scatch_def)
  qed
qed

text \<open>
  C5.  Whenever \<^verbatim>\<open>getDirectoryContents\<close> returns, the server answered the
  \<^verbatim>\<open>PROPFIND\<close> on the normalised path with a body that parsed into records, and the
  result is the mapping of exactly the records whose address does not denote the queried
  directory (as given, with a trailing separator, or without it), in the order of the
  reply; so no returned entry denotes the directory itself.
\<close>

theorem listing_excludes_directory_itself:
  assumes "getDirectoryContents E S c dir deep sent = (Inr files, sent')"
  shows "\<exists>st txt body rs.
           S sent (mk_request c ''PROPFIND'' (normalize_dir dir)
                     [(''Depth'', if deep then ''infinity'' else ''1''),
                      (''Content-Type'', ''application/xml; charset=utf-8'')]
                     (Data propfind_body)) = Reply st txt body \<and>
           parseWebDAVResponse E body = Inr rs \<and>
           files = map (webdavResponseToFileInfo E)
                     (filter (\<lambda>r. \<not> denotes_dir dir (href r)) rs) \<and>
           (\<forall>f \<in> set files. \<not> denotes_dir dir (filename f))"
proof -
  let ?req = "mk_request c ''PROPFIND'' (normalize_dir dir)
                     [(''Depth'', if deep then ''infinity'' else ''1''),
                      (''Content-Type'', ''application/xml; charset=utf-8'')]
                     (Data propfind_body)"
  from assms have m: "sbind (propfind S c (normalize_dir dir) (if deep then ''infinity'' else ''1''))
          (\<lambda>(_, _, body). sbind (lift (parseWebDAVResponse E body)) (\<lambda>webdavResponses.
             sreturn (collect_files E dir (normalize_dir dir) webdavResponses))) sent = (Inr files, sent')"
    unfolding getDirectoryContents_def Let_def by (rule scatch_rethrow_Inr)
  then obtain st tx body s1 where p: "axios_request S ?req sent = (Inr (st, tx, body), s1)"
    unfolding propfind_def sbind_def by (auto split: prod.splits sum.splits)
  with m obtain rs where rs: "parseWebDAVResponse E body = Inr rs"
    and f: "files = collect_files E dir (normalize_dir dir) rs"
    unfolding propfind_def sbind_def lift_def sreturn_def by (auto split: prod.splits sum.splits)
  from f have f': "files = map (webdavResponseToFileInfo E)
                     (filter (\<lambda>r. \<not> denotes_dir dir (href r)) rs)"
    by (simp add: collect_files_eq is_self_iff)
  then have "\<forall>f \<in> set files. \<not> denotes_dir dir (filename f)"
    by (auto simp: filename_eq)
  with axios_request_Inr[OF p] rs f' show ?thesis by blast
qed

section \<open>Records of \<^verbatim>\<open>stat\<close>\<close>

lemma normalize_undefined:
  "normalizeWebDAVResponse E JUndefined =
     Inl (Error (''Cannot read properties of undefined'' @ reading ''d:href''))"
  by (simp add: normalizeWebDAVResponse_def spellings_def bind_def)

lemma parse_no_response:
  assumes "xml_parse E body = Inr doc" and "first_truthy doc ''multistatus'' = Inr ms"
    and "truthy ms" and "\<forall>k \<in> set (spellings ''response''). js_get ms k = Inr JUndefined"
  shows "parseWebDAVResponse E body =
           Inl (WebDAVError (''XML parse error: Cannot read properties of undefined'' @
                             reading ''d:href'') None None None)"
proof -
  from assms(4) have "first_truthy ms ''response'' = Inr JUndefined"
    by (simp add: first_truthy_def spellings_def bind_def)
  with assms(1-3) have "parse_body E body =
      Inl (Error (''Cannot read properties of undefined'' @ reading ''d:href''))"
    by (simp add: parse_body_def read_multistatus_def bind_def normalize_undefined)
  then show ?thesis by (simp add: parseWebDAVResponse_def)
qed

lemma parse_no_multistatus:
  assumes "xml_parse E body = Inr doc" and "first_truthy doc ''multistatus'' = Inr ms"
    and "\<not> truthy ms"
  shows "parseWebDAVResponse E body =
           Inl (WebDAVError ''XML parse error: Invalid WebDAV response format'' None None None)"
  using assms by (simp add: parseWebDAVResponse_def parse_body_def read_multistatus_def bind_def)

text \<open>The parse error is the only error of \<^verbatim>\<open>parseWebDAVResponse\<close>.\<close>

lemma parse_error_form:
  "parseWebDAVResponse E body = Inl e \<Longrightarrow>
     \<exists>m. e = WebDAVError (''XML parse error: '' @ m) None None None"
  by (auto simp: parseWebDAVResponse_def split: sum.splits)

text \<open>A tree without empty arrays is never read into an empty list of records.\<close>

lemma js_get_no_empty_array:
  "no_empty_array v \<Longrightarrow> js_get v k = Inr w \<Longrightarrow> no_empty_array w"
  by (cases v) (auto split: option.splits dest!: map_of_SomeD)

lemma first_truthy_no_empty_array:
  assumes "no_empty_array v" and "first_truthy v n = Inr w"
  shows "no_empty_array w"
proof -
  from assms(2) obtain k where "js_get v k = Inr w"
    by (auto simp: first_truthy_def bind_def split: sum.splits if_splits)
  with assms(1) show ?thesis by (rule js_get_no_empty_array)
qed

lemma map_normalize_length:
  "map_normalize E xs = Inr rs \<Longrightarrow> length rs = length xs"
  by (induction xs arbitrary: rs) (auto simp: bind_def split: sum.splits)

lemma read_multistatus_nonempty:
  assumes "no_empty_array doc" and "read_multistatus E doc = Inr rs"
  shows "rs \<noteq> []"
proof -
  from assms(2) obtain ms rv where ms: "first_truthy doc ''multistatus'' = Inr ms"
    and rv: "first_truthy ms ''response'' = Inr rv"
    and rs: "map_normalize E (as_array rv) = Inr rs"
    by (auto simp: read_multistatus_def bind_def split: sum.splits if_splits)
  from first_truthy_no_empty_array[OF first_truthy_no_empty_array[OF assms(1) ms] rv]
  have "as_array rv \<noteq> []" by (cases rv) auto
  with map_normalize_length[OF rs] show ?thesis by auto
qed

lemma parse_nonempty:
  assumes "parser_contract E"
  shows "parseWebDAVResponse E body \<noteq> Inr []"
proof
  assume a: "parseWebDAVResponse E body = Inr []"
  then obtain doc where d: "xml_parse E body = Inr doc" and r: "read_multistatus E doc = Inr []"
    by (auto simp: parseWebDAVResponse_def parse_body_def bind_def split: sum.splits)
  from assms d have "no_empty_array doc" unfolding parser_contract_def by blast
  from read_multistatus_nonempty[OF this r] show False by simp
qed

lemma propfind_answered:
  assumes "S sent (mk_request c ''PROPFIND'' target
                     [(''Depth'', depth), (''Content-Type'', ''application/xml; charset=utf-8'')]
                     (Data propfind_body)) = Reply st st_text body"
    and "200 \<le> st \<and> st < 300"
    and "\<not> cfg_maxBodyLength c < enat (length propfind_body)"
    and "\<not> cfg_maxContentLength c < enat (length body)"
  shows "propfind S c target depth sent =
           (Inr (st, st_text, body),
            sent @ [mk_request c ''PROPFIND'' target
                     [(''Depth'', depth), (''Content-Type'', ''application/xml; charset=utf-8'')]
                     (Data propfind_body)])"
  using assms by (simp add: propfind_def axios_request_def)

lemma stat_of_parse:
  assumes "propfind S c filePath ''0'' sent = (Inr (st, st_text, body), sent')"
  shows "parseWebDAVResponse E body = Inr (first # rest) \<Longrightarrow>
           fst (stat E S c filePath sent) = Inr (webdavResponseToFileInfo E first)"
    and "parseWebDAVResponse E body = Inl (WebDAVError m None None None) \<Longrightarrow>
           fst (stat E S c filePath sent) = Inl (WebDAVError m None None None)"
  using assms
  by (simp_all add: stat_def scatch_def sbind_def lift_def sreturn_def sthrow_def)

text \<open>
  C7.  Let the server answer the \<^verbatim>\<open>PROPFIND\<close> of \<^verbatim>\<open>stat\<close> with a 2xx response within
  the response limit, and let the XML parser deliver no empty arrays.  If the body parses
  into records, \<^verbatim>\<open>stat\<close> returns the mapping of the first one.  The body never parses into
  an empty list of records: a document that holds no response element, be it that its
  multistatus element has none under any spelling or that it has no multistatus element,
  makes \<^verbatim>\<open>stat\<close> throw the parse error, a \<^verbatim>\<open>WebDAVError\<close> without status code whose
  message starts with the prefix of \<^verbatim>\<open>parseWebDAVResponse\<close>; and so does every other
  failure to parse.
\<close>

theorem stat_first_record_or_parse_error:
  assumes "parser_contract E"
    and "S sent (mk_request c ''PROPFIND'' filePath
                     [(''Depth'', ''0''), (''Content-Type'', ''application/xml; charset=utf-8'')]
                     (Data propfind_body)) = Reply st st_text body"
    and "200 \<le> st \<and> st < 300"
    and "\<not> cfg_maxBodyLength c < enat (length propfind_body)"
    and "\<not> cfg_maxContentLength c < enat (length body)"
  shows "(parseWebDAVResponse E body = Inr (first # rest) \<longrightarrow>
            fst (stat E S c filePath sent) = Inr (webdavResponseToFileInfo E first)) \<and>
         parseWebDAVResponse E body \<noteq> Inr [] \<and>
         (xml_parse E body = Inr doc \<and> first_truthy doc ''multistatus'' = Inr ms \<and> truthy ms \<and>
          (\<forall>k \<in> set (spellings ''response''). js_get ms k = Inr JUndefined) \<longrightarrow>
            fst (stat E S c filePath sent) =
              Inl (WebDAVError (''XML parse error: Cannot read properties of undefined'' @
                                reading ''d:href'') None None None)) \<and>
         (xml_parse E body = Inr doc \<and> first_truthy doc ''multistatus'' = Inr ms \<and> \<not> truthy ms \<longrightarrow>
            fst (stat E S c filePath sent) =
              Inl (WebDAVError ''XML parse error: Invalid WebDAV response format''
                     None None None)) \<and>
         (parseWebDAVResponse E body = Inl e \<longrightarrow>
            fst (stat E S c filePath sent) = Inl e \<and>
            (\<exists>m. e = WebDAVError (''XML parse error: '' @ m) None None None))"
proof -
  have p: "propfind S c filePath ''0'' sent =
             (Inr (st, st_text, body),
              sent @ [mk_request c ''PROPFIND'' filePath
                       [(''Depth'', ''0''), (''Content-Type'', ''application/xml; charset=utf-8'')]
                       (Data propfind_body)])"
    using assms(2-5) by (simp add: propfind_answered)
  show ?thesis
  proof (intro conjI impI)
    assume "parseWebDAVResponse E body = Inr (first # rest)"
    then show "fst (stat E S c filePath sent) = Inr (webdavResponseToFileInfo E first)"
      by (rule stat_of_parse(1)[OF p])
  next
    show "parseWebDAVResponse E body \<noteq> Inr []" by (rule parse_nonempty[OF assms(1)])
  next
    assume "xml_parse E body = Inr doc \<and> first_truthy doc ''multistatus'' = Inr ms \<and> truthy ms \<and>
          (\<forall>k \<in> set (spellings ''response''). js_get ms k = Inr JUndefined)"
    then have "parseWebDAVResponse E body =
           Inl (WebDAVError (''XML parse error: Cannot read properties of undefined'' @
                             reading ''d:href'') None None None)"
      by (intro parse_no_response) auto
    then show "fst (stat E S c filePath sent) =
              Inl (WebDAVError (''XML parse error: Cannot read properties of undefined'' @
                                reading ''d:href'') None None None)"
      by (rule stat_of_parse(2)[OF p])
  next
    assume "xml_parse E body = Inr doc \<and> first_truthy doc ''multistatus'' = Inr ms \<and> \<not> truthy ms"
    then have "parseWebDAVResponse E body =
           Inl (WebDAVError ''XML parse error: Invalid WebDAV response format'' None None None)"
      by (intro parse_no_multistatus) auto
    then show "fst (stat E S c filePath sent) =
              Inl (WebDAVError ''XML parse error: Invalid WebDAV response format''
                     None None None)"
      by (rule stat_of_parse(2)[OF p])
  next
    assume e: "parseWebDAVResponse E body = Inl e"
    from parse_error_form[OF e]
    show m: "\<exists>m. e = WebDAVError (''XML parse error: '' @ m) None None None" .
    then obtain m where "e = WebDAVError (''XML parse error: '' @ m) None None None" by blast
    with e stat_of_parse(2)[OF p, of E "''XML parse error: '' @ m"]
    show "fst (stat E S c filePath sent) = Inl e" by simp
  qed
qed

text \<open>
  So the guard of \<^verbatim>\<open>stat\<close> for an empty list of records is never reached with this
  parser; it would answer an empty list with the error of status 404.
\<close>

lemma stat_guard:
  assumes "propfind S c filePath ''0'' sent = (Inr (st, st_text, body), sent')"
    and "parseWebDAVResponse E body = Inr []"
  shows "fst (stat E S c filePath sent) =
           Inl (WebDAVError ''Failed to get information about the resource''
                  (Some 404) (Some ''Not Found'') None)"
  using assms
  by (simp add: stat_def scatch_def sbind_def lift_def sreturn_def sthrow_def)

section \<open>The operations on the samples\<close>

lemma length_propfind_body: "length propfind_body = 487"
  by (simp add: propfind_body_def nl_def)

lemma sample_client_limit:
  "cfg_maxBodyLength sample_client = 524288000" "cfg_maxContentLength sample_client = 524288000"
  by (simp_all add: sample_client_def createClient_def WebDAVClient_def Let_def or_default_def)

lemma small_client_limit:
  "cfg_maxBodyLength small_client = 10" "cfg_maxContentLength small_client = 10"
  by (simp_all add: small_client_def createClient_def WebDAVClient_def Let_def or_default_def)

lemma narrow_client_limit:
  "cfg_maxBodyLength narrow_client = 524288000" "cfg_maxContentLength narrow_client = 10"
  by (simp_all add: narrow_client_def createClient_def WebDAVClient_def Let_def or_default_def)

lemma sample_limit_ok: "\<not> cfg_maxBodyLength sample_client < enat (length propfind_body)"
  by (simp add: length_propfind_body sample_client_limit numeral_eq_enat)

lemma sample_lengths:
  "length listing_text = 592" "length report_text = 245"
  "length empty_multistatus_text = 31" "length page_text = 34"
  by (simp_all add: listing_text_def report_text_def empty_multistatus_text_def page_text_def
        element_def element_with_def collection_entry_text_def file_entry_text_def)

lemma sample_response_limit_ok:
  "\<not> cfg_maxContentLength sample_client < enat (length listing_text)"
  "\<not> cfg_maxContentLength sample_client < enat (length report_text)"
  "\<not> cfg_maxContentLength sample_client < enat (length empty_multistatus_text)"
  "\<not> cfg_maxContentLength sample_client < enat (length page_text)"
  by (simp_all add: sample_lengths sample_client_limit numeral_eq_enat)

lemma sample_base: "baseURL sample_client = ''https://dav.example.com/remote/''"
  by (simp add: sample_client_def createClient_def WebDAVClient_def Let_def)

lemma sample_base_absolute: "is_absolute_url (baseURL sample_client)"
  by (simp add: sample_base https_is_absolute startsWith_def)

theorem success_block_selected_witness:
  "successPropstat (JArr [sample_block ''HTTP/1.1 404 Not Found'' ''a'',
                          sample_block ''HTTP/1.1 200 OK'' ''b'']) =
     Inr (sample_block ''HTTP/1.1 200 OK'' ''b'') \<and>
   successPropstat (JArr [sample_block ''HTTP/1.1 404 Not Found'' ''a'',
                          sample_block ''HTTP/1.1 403 Forbidden'' ''c'']) =
     Inr (sample_block ''HTTP/1.1 404 Not Found'' ''a'')"
proof -
  have b: "is_block (sample_block line tag)" for line tag
    by (simp add: is_block_def sample_block_def spellings_def bind_def)
  have s: "status_contains_200 (sample_block line tag) = str_includes line ''200''" for line tag
    by (simp add: status_contains_200_def sample_block_def spellings_def bind_def)
  show ?thesis
    using success_block_selected
            [of "JArr [sample_block ''HTTP/1.1 404 Not Found'' ''a'',
                       sample_block ''HTTP/1.1 200 OK'' ''b'']"]
          success_block_selected
            [of "JArr [sample_block ''HTTP/1.1 404 Not Found'' ''a'',
                       sample_block ''HTTP/1.1 403 Forbidden'' ''c'']"]
    by (simp add: b s)
qed

lemmas sample_texts =
  listing_text_def report_text_def empty_multistatus_text_def page_text_def lower_text_def
  upper_text_def bare_text_def assorted_text_def mixed_text_def element_def element_with_def
  collection_entry_text_def file_entry_text_def sample_response_text_def

lemma docs_lookup:
  "xml_parse docs_env listing_text = Inr listing_document"
  "xml_parse docs_env report_text = Inr report_document"
  "xml_parse docs_env empty_multistatus_text = Inr empty_multistatus_document"
  "xml_parse docs_env page_text = Inr page_document"
  "xml_parse docs_env lower_text = Inr lower_document"
  "xml_parse docs_env upper_text = Inr upper_document"
  "xml_parse docs_env bare_text = Inr bare_sample_document"
  "xml_parse docs_env assorted_text = Inr assorted_document"
  "xml_parse docs_env mixed_text = Inr mixed_document"
  by (simp_all add: docs_env_def sample_env_def sample_texts)

lemma sample_parser_contract:
  assumes "\<forall>kv \<in> set docs. no_empty_array (snd kv)"
  shows "parser_contract (sample_env docs)"
  unfolding parser_contract_def
proof (intro allI impI)
  fix x doc
  assume "xml_parse (sample_env docs) x = Inr doc"
  then have "map_of docs x = Some doc" by (simp add: sample_env_def split: option.splits)
  then have "(x, doc) \<in> set docs" by (rule map_of_SomeD)
  with assms show "no_empty_array doc" by force
qed

lemma docs_parser_contract: "parser_contract docs_env"
  unfolding docs_env_def
  by (rule sample_parser_contract)
     (simp add: listing_document_def report_document_def empty_multistatus_document_def
        page_document_def lower_document_def upper_document_def bare_sample_document_def
        assorted_document_def mixed_document_def sample_response_def collection_entry_def
        file_entry_def)

lemma docs_decode: "CHR ''%'' \<notin> set s \<Longrightarrow> decodeURIComponent docs_env s = Inr s"
  by (simp add: docs_env_def sample_env_def)

lemma docs_basename: "path_basename docs_env = posix_basename"
  by (simp add: docs_env_def sample_env_def)

lemma docs_now: "now_ISO docs_env = ''2026-01-01T00:00:00.000Z''"
  by (simp add: docs_env_def sample_env_def)

lemma parse_listing:
  "parseWebDAVResponse docs_env listing_text =
     Inr [\<lparr> href = ''/docs/'',
            propstat = \<lparr> props = \<lparr> getcontentlength = JUndefined, getlastmodified = JUndefined,
                 getcontenttype = JUndefined, getetag = JUndefined,
                 resourcetype = JObj [(''d:collection'', JStr [])], displayname = JUndefined \<rparr>,
              status = JStr ''HTTP/1.1 200 OK'' \<rparr> \<rparr>,
          \<lparr> href = ''/docs'',
            propstat = \<lparr> props = \<lparr> getcontentlength = JUndefined, getlastmodified = JUndefined,
                 getcontenttype = JUndefined, getetag = JUndefined,
                 resourcetype = JObj [(''d:collection'', JStr [])], displayname = JUndefined \<rparr>,
              status = JStr ''HTTP/1.1 200 OK'' \<rparr> \<rparr>,
          \<lparr> href = ''/docs/report.pdf'',
            propstat = \<lparr> props = \<lparr> getcontentlength = JNum 10240, getlastmodified = JUndefined,
                 getcontenttype = JUndefined, getetag = JUndefined,
                 resourcetype = JStr [], displayname = JUndefined \<rparr>,
              status = JStr ''HTTP/1.1 200 OK'' \<rparr> \<rparr>]"
  by (simp add: parseWebDAVResponse_def parse_body_def read_multistatus_def first_truthy_def docs_lookup listing_document_def
        collection_entry_def file_entry_def bind_def normalizeWebDAVResponse_def
        extract_record_def successPropstat_def is_success_def spellings_def js_or_def
        first_or_undefined_def docs_decode Let_def)

lemma parse_report:
  "parseWebDAVResponse docs_env report_text =
     Inr [\<lparr> href = ''/docs/report.pdf'',
            propstat = \<lparr> props = \<lparr> getcontentlength = JNum 10240, getlastmodified = JUndefined,
                 getcontenttype = JUndefined, getetag = JUndefined,
                 resourcetype = JStr [], displayname = JUndefined \<rparr>,
              status = JStr ''HTTP/1.1 200 OK'' \<rparr> \<rparr>]"
  by (simp add: parseWebDAVResponse_def parse_body_def read_multistatus_def first_truthy_def docs_lookup report_document_def
        file_entry_def bind_def normalizeWebDAVResponse_def
        extract_record_def successPropstat_def is_success_def spellings_def js_or_def
        first_or_undefined_def docs_decode Let_def)

lemma docs_propfind:
  "docs_server sent (mk_request c ''PROPFIND'' ''/docs/'' hs d) = Reply 207 ''Multi-Status'' listing_text"
  "docs_server sent (mk_request c ''PROPFIND'' ''/docs/report.pdf'' hs d) = Reply 207 ''Multi-Status'' report_text"
  "docs_server sent (mk_request c ''PROPFIND'' ''/none'' hs d) =
     Reply 207 ''Multi-Status'' empty_multistatus_text"
  "docs_server sent (mk_request c ''PROPFIND'' ''/page'' hs d) = Reply 200 ''OK'' page_text"
  by (simp_all add: docs_server_def sample_server_def)

lemma map_report:
  "webdavResponseToFileInfo docs_env
     \<lparr> href = ''/docs/report.pdf'',
       propstat = \<lparr> props = \<lparr> getcontentlength = JNum 10240, getlastmodified = JUndefined,
                 getcontenttype = JUndefined, getetag = JUndefined,
                 resourcetype = JStr [], displayname = JUndefined \<rparr>,
              status = JStr ''HTTP/1.1 200 OK'' \<rparr> \<rparr> = report_info"
  by (simp add: webdavResponseToFileInfo_def Let_def docs_basename docs_now posix_basename_def
        js_or_def isDirectory_def parseInt_show_int report_info_def)

lemma listing_of_docs:
  "getDirectoryContents docs_env docs_server sample_client ''/docs'' False [] =
     (Inr [report_info],
      [mk_request sample_client ''PROPFIND'' ''/docs/''
         [(''Depth'', ''1''), (''Content-Type'', ''application/xml; charset=utf-8'')]
         (Data propfind_body)])"
  by (simp add: getDirectoryContents_def Let_def normalize_dir_def endsWith_def
        propfind_answered sample_limit_ok sample_response_limit_ok docs_propfind scatch_def
        sbind_def lift_def sreturn_def parse_listing is_self_def map_report)

theorem listing_excludes_directory_itself_witness:
  "getDirectoryContents docs_env docs_server sample_client ''/docs'' False [] =
     (Inr [report_info],
      [mk_request sample_client ''PROPFIND'' ''/docs/''
         [(''Depth'', ''1''), (''Content-Type'', ''application/xml; charset=utf-8'')]
         (Data propfind_body)]) \<and>
   \<not> denotes_dir ''/docs'' (filename report_info) \<and>
   denotes_dir ''/docs'' ''/docs/'' \<and> denotes_dir ''/docs'' ''/docs''"
  using listing_excludes_directory_itself [OF listing_of_docs] listing_of_docs
  by (simp add: denotes_dir_def normalize_dir_def endsWith_def report_info_def)

subsection \<open>\<^verbatim>\<open>stat\<close> on the samples\<close>

theorem stat_first_record_or_parse_error_witness:
  "fst (stat docs_env docs_server sample_client ''/docs/report.pdf'' []) = Inr report_info \<and>
   fst (stat docs_env docs_server sample_client ''/none'' []) =
     Inl (WebDAVError (''XML parse error: Cannot read properties of undefined'' @
                       reading ''d:href'') None None None) \<and>
   fst (stat docs_env docs_server sample_client ''/page'' []) =
     Inl (WebDAVError ''XML parse error: Invalid WebDAV response format'' None None None)"
proof -
  have n: "first_truthy empty_multistatus_document ''multistatus'' =
             Inr (JObj [(''@_xmlns:d'', JStr ''DAV:'')])"
    by (simp add: first_truthy_def empty_multistatus_document_def bind_def)
  have e: "first_truthy page_document ''multistatus'' = Inr JUndefined"
    by (simp add: first_truthy_def page_document_def bind_def)
  show ?thesis
    using stat_first_record_or_parse_error
            [OF docs_parser_contract,
             where S = docs_server and sent = "[]" and c = sample_client
               and filePath = "''/docs/report.pdf''" and st = 207 and st_text = "''Multi-Status''"
               and body = report_text and doc = JUndefined and ms = JUndefined]
          stat_first_record_or_parse_error
            [OF docs_parser_contract,
             where S = docs_server and sent = "[]" and c = sample_client
               and filePath = "''/none''" and st = 207 and st_text = "''Multi-Status''"
               and body = empty_multistatus_text
               and doc = empty_multistatus_document and ms = "JObj [(''@_xmlns:d'', JStr ''DAV:'')]"]
          stat_first_record_or_parse_error
            [OF docs_parser_contract,
             where S = docs_server and sent = "[]" and c = sample_client
               and filePath = "''/page''" and st = 200 and st_text = "''OK''"
               and body = page_text and doc = page_document and ms = JUndefined]
    by (simp add: docs_propfind sample_limit_ok sample_response_limit_ok parse_report map_report
          docs_lookup n e spellings_def)
qed

subsection \<open>Move and copy on the samples\<close>

lemma sample_env_URL: "new_URL (sample_env docs) = sample_URL"
  by (simp add: sample_env_def)

lemma relative_target_url:
  "createAbsoluteUrl (sample_env docs) sample_client ''relative/target'' =
     ''https://dav.example.com/remote/relative/target''"
  using sample_base_absolute
  by (simp add: createAbsoluteUrl_def startsWith_def sample_env_URL sample_URL_def sample_base
        endsWith_def is_absolute_url_def is_alpha_def is_scheme_char_def is_digit_def)

lemma absolute_path_url:
  "createAbsoluteUrl (sample_env docs) sample_client ''/b.txt'' = ''https://dav.example.com/b.txt''"
  using sample_base_absolute
  by (simp add: createAbsoluteUrl_def startsWith_def sample_env_URL sample_URL_def sample_base
        endsWith_def is_absolute_url_def is_alpha_def is_scheme_char_def is_digit_def
        url_origin_def)

theorem destination_is_absolute_url_witness:
  "map (\<lambda>r. (http_method r, url r, headers r))
     (snd (moveFile (sample_env []) files_server sample_client ''/a.txt'' ''relative/target''
             (Some True) [])) =
     [(''MOVE'', ''/a.txt'',
       [(''Destination'', ''https://dav.example.com/remote/relative/target''),
        (''Overwrite'', ''T'')])] \<and>
   map (\<lambda>r. (http_method r, url r, headers r))
     (snd (copyFile (sample_env []) files_server sample_client ''/a.txt''
             ''https://other.example.com/copy.txt'' (Some False) [])) =
     [(''COPY'', ''/a.txt'',
       [(''Destination'', ''https://other.example.com/copy.txt''), (''Overwrite'', ''F'')])] \<and>
   is_absolute_url ''https://dav.example.com/remote/relative/target'' \<and>
   \<not> is_absolute_url ''relative/target''"
proof -
  have n: "\<not> is_absolute_url ''relative/target''"
    by (simp add: is_absolute_url_def is_alpha_def is_scheme_char_def is_digit_def)
  show ?thesis
    using destination_is_absolute_url
            [OF sample_url_contract,
             of "[]" files_server sample_client "''/a.txt''" "''relative/target''" "Some True" "[]"]
          destination_is_absolute_url
            [OF sample_url_contract,
             of "[]" files_server sample_client "''/a.txt''"
                "''https://other.example.com/copy.txt''" "Some False" "[]"]
          sample_base_absolute n
    by (auto simp: relative_target_url startsWith_def)
qed

text \<open>
  The property as the spec words it fails on a client whose base URL is not an absolute
  URL.  With an empty base URL, the \<^verbatim>\<open>MOVE\<close> of a source given by its full URL carries
  the relative destination itself as \<^verbatim>\<open>Destination\<close>; with a base URL that lacks the
  scheme, the header is base and destination joined, which is no absolute URL either.
\<close>

theorem relative_destination_counterexample:
  "map (\<lambda>r. (http_method r, url r, headers r))
     (snd (moveFile (sample_env []) files_server baseless_client
             ''https://dav.example.com/remote/a.txt'' ''/b.txt'' (Some False) [])) =
     [(''MOVE'', ''https://dav.example.com/remote/a.txt'',
       [(''Destination'', ''/b.txt''), (''Overwrite'', ''F'')])] \<and>
   \<not> is_absolute_url ''/b.txt'' \<and>
   map (\<lambda>r. (http_method r, url r, headers r))
     (snd (moveFile (sample_env []) files_server schemeless_client
             ''https://dav.example.com/remote/a.txt'' ''b.txt'' (Some False) [])) =
     [(''MOVE'', ''https://dav.example.com/remote/a.txt'',
       [(''Destination'', ''dav.example.com/remote/b.txt''), (''Overwrite'', ''F'')])] \<and>
   \<not> is_absolute_url ''dav.example.com/remote/b.txt''"
  by (simp add: moveFile_sent transfer_headers_def createAbsoluteUrl_def startsWith_def
        sample_env_URL sample_URL_def baseless_client_def schemeless_client_def createClient_def
        WebDAVClient_def Let_def strip_trailing_slash_def strip_leading_slash_def
        is_absolute_url_def is_alpha_def is_scheme_char_def is_digit_def)

subsection \<open>Moving on the samples\<close>

lemma files_head:
  "files_server sent (mk_request c ''HEAD'' ''/a.txt'' hs d) = Reply 200 ''OK'' []"
  "files_server sent (mk_request c ''HEAD'' ''/b.txt'' hs d) = Reply 200 ''OK'' []"
  "files_server sent (mk_request c ''HEAD'' ''/big.bin'' hs d) = Reply 404 ''Not Found'' []"
  "files_server sent (mk_request c ''GET'' ''/a.txt'' hs d) = Reply 200 ''OK'' ''hello, world''"
  "files_server sent (mk_request c ''MOVE'' ''/a.txt'' hs d) = Reply 412 ''Precondition Failed'' []"
  "files_server sent (mk_request c ''PUT'' ''/big.bin'' hs d) = Reply 201 ''Created'' []"
  by (simp_all add: files_server_def sample_server_def)

theorem move_without_overwrite_witness:
  "exists files_server sample_client ''/b.txt'' [mk_request sample_client ''HEAD'' ''/a.txt'' [] NoData] =
     (Inr True, [mk_request sample_client ''HEAD'' ''/a.txt'' [] NoData,
                 mk_request sample_client ''HEAD'' ''/b.txt'' [] NoData]) \<and>
   move_operation (sample_env []) files_server sample_client ''/a.txt'' ''/b.txt'' False True [] =
     (Inl (NodeOperationError
            ''Target file /b.txt already exists. Set the Overwrite flag to overwrite.''),
      [mk_request sample_client ''HEAD'' ''/a.txt'' [] NoData,
       mk_request sample_client ''HEAD'' ''/b.txt'' [] NoData])"
proof -
  have a: "exists files_server sample_client ''/a.txt'' [] =
             (Inr True, [mk_request sample_client ''HEAD'' ''/a.txt'' [] NoData])"
    by (simp add: exists_eq files_head)
  have b: "exists files_server sample_client ''/b.txt''
             [mk_request sample_client ''HEAD'' ''/a.txt'' [] NoData] =
             (Inr True, [mk_request sample_client ''HEAD'' ''/a.txt'' [] NoData,
                         mk_request sample_client ''HEAD'' ''/b.txt'' [] NoData])"
    by (simp add: exists_eq files_head)
  show ?thesis
    using a b move_without_overwrite
                [of "sample_env []" files_server sample_client "''/a.txt''" "''/b.txt''" "[]"
                    "[mk_request sample_client ''HEAD'' ''/a.txt'' [] NoData]"
                    "[mk_request sample_client ''HEAD'' ''/a.txt'' [] NoData,
                      mk_request sample_client ''HEAD'' ''/b.txt'' [] NoData]" True]
    by simp
qed

text \<open>
  The property as the spec words it fails on the client: \<^verbatim>\<open>/b.txt\<close> exists, and
  \<^verbatim>\<open>moveFile\<close> still transmits the \<^verbatim>\<open>MOVE\<close>; the error it throws is the server's 412.
\<close>

theorem move_onto_existing_counterexample:
  "fst (exists files_server sample_client ''/b.txt'' []) = Inr True \<and>
   moveFile (sample_env []) files_server sample_client ''/a.txt'' ''/b.txt'' (Some False) [] =
     (Inl (WebDAVError ''Failed to move the file: Precondition failed.''
             (Some 412) (Some ''Precondition Failed'') (Some [])),
      [mk_request sample_client ''MOVE'' ''/a.txt''
         [(''Destination'', ''https://dav.example.com/b.txt''), (''Overwrite'', ''F'')] NoData])"
  by (simp add: exists_eq files_head moveFile_def transfer_headers_def absolute_path_url
        axios_request_no_data scatch_def sbind_def sthrow_def status_message_def
        zero_enat_def[symmetric])

subsection \<open>Limits on the samples\<close>

lemma show_limit_ten: "show_limit (enat 10) = ''10''"
  by (simp add: show_limit_def show_nat.simps digit_char_def char_of_eq_iff)

theorem body_limit_enforced_except_stream_witness:
  "cfg_maxBodyLength small_client = 10 \<and> cfg_maxContentLength small_client = 10 \<and>
   putFileContents files_server small_client ''/big.bin'' ''0123456789ABCDEF'' (Some True) [] =
     (Inl (WebDAVError
             ''Failed to upload the file contents: Request body larger than maxBodyLength limit''
             None None None), []) \<and>
   putFileContents files_server small_client ''/big.bin'' ''0123456789ABCDEF'' None [] =
     (Inl (WebDAVError
             ''Failed to upload the file contents: Request body larger than maxBodyLength limit''
             None None None), [mk_request small_client ''HEAD'' ''/big.bin'' [] NoData]) \<and>
   stat docs_env docs_server small_client ''/docs/report.pdf'' [] =
     (Inl (WebDAVError
             ''Failed to get information about the file: Request body larger than maxBodyLength limit''
             None None None), []) \<and>
   stat docs_env docs_server narrow_client ''/docs/report.pdf'' [] =
     (Inl (WebDAVError
             ''Failed to get information about the file: maxContentLength size of 10 exceeded''
             None None None),
      [mk_request narrow_client ''PROPFIND'' ''/docs/report.pdf''
         [(''Depth'', ''0''), (''Content-Type'', ''application/xml; charset=utf-8'')]
         (Data propfind_body)]) \<and>
   getFileContents files_server small_client ''/a.txt'' [] =
     (Inl (WebDAVError ''Failed to get the file contents: maxContentLength size of 10 exceeded''
             None None None),
      [mk_request small_client ''GET'' ''/a.txt'' [] NoData]) \<and>
   putFileStream files_server small_client ''/big.bin'' ''0123456789ABCDEF'' None [] =
     (Inr (),
      [mk_request small_client ''HEAD'' ''/big.bin'' [] NoData,
       \<lparr> http_method = ''PUT'', url = ''/big.bin'',
         headers = [(''Content-Type'', ''application/octet-stream'')],
         data = Stream ''0123456789ABCDEF'', maxBodyLength = \<infinity>, maxContentLength = \<infinity> \<rparr>])"
proof -
  let ?options = "\<lparr> opt_username = None, opt_password = None,
                 opt_token = Some ''t0ken'', opt_headers = [], opt_maxBodyLength = Some 10,
                 opt_maxContentLength = Some (10 :: enat) \<rparr>"
  have h: "fst (exists files_server small_client ''/big.bin'' []) = Inr False"
    by (simp add: exists_eq files_head)
  note t = body_limit_enforced_except_stream
          [where c = small_client and bytes = "''0123456789ABCDEF''" and S = files_server
             and filePath = "''/big.bin''" and sent = "[]" and base = "''https://dav.example.com/remote/''"
             and options = ?options and d = NoData and ow = None]
  note u = body_limit_enforced_except_stream
          [where c = small_client and bytes = "''0123456789ABCDEF''" and S = files_server
             and filePath = "''/big.bin''" and sent = "[]" and base = "''https://dav.example.com/remote/''"
             and options = ?options and d = NoData and ow = "Some True"]
  note v = body_limit_enforced_except_stream
          [where c = small_client and bytes = "[]" and S = docs_server and E = docs_env
             and filePath = "''/docs/report.pdf''" and sent = "[]" and base = "[]"
             and options = ?options and d = NoData and ow = "Some True"]
  note w = body_limit_enforced_except_stream
          [where c = narrow_client and bytes = "[]" and S = docs_server and E = docs_env
             and filePath = "''/docs/report.pdf''" and sent = "[]" and base = "[]"
             and options = ?options and d = NoData and ow = "Some True"
             and st = 207 and st_text = "''Multi-Status''" and body = report_text]
  note x = body_limit_enforced_except_stream
          [where c = small_client and bytes = "[]" and S = files_server
             and filePath = "''/a.txt''" and sent = "[]" and base = "[]"
             and options = ?options and d = NoData and ow = "Some True"
             and st = 200 and st_text = "''OK''" and body = "''hello, world''"]
  have 1: "putFileContents files_server small_client ''/big.bin'' ''0123456789ABCDEF'' (Some True) [] =
     (Inl (WebDAVError
             ''Failed to upload the file contents: Request body larger than maxBodyLength limit''
             None None None), [])"
    using u by (simp add: small_client_limit numeral_eq_enat)
  have 2: "putFileContents files_server small_client ''/big.bin'' ''0123456789ABCDEF'' None [] =
     (Inl (WebDAVError
             ''Failed to upload the file contents: Request body larger than maxBodyLength limit''
             None None None), [mk_request small_client ''HEAD'' ''/big.bin'' [] NoData])"
    using t h by (simp add: small_client_limit numeral_eq_enat)
  have 3: "stat docs_env docs_server small_client ''/docs/report.pdf'' [] =
     (Inl (WebDAVError
             ''Failed to get information about the file: Request body larger than maxBodyLength limit''
             None None None), [])"
    using v by (simp add: small_client_limit length_propfind_body numeral_eq_enat)
  have 4: "stat docs_env docs_server narrow_client ''/docs/report.pdf'' [] =
     (Inl (WebDAVError
             ''Failed to get information about the file: maxContentLength size of 10 exceeded''
             None None None),
      [mk_request narrow_client ''PROPFIND'' ''/docs/report.pdf''
         [(''Depth'', ''0''), (''Content-Type'', ''application/xml; charset=utf-8'')]
         (Data propfind_body)])"
    using w
    by (simp add: narrow_client_limit length_propfind_body sample_lengths docs_propfind
          show_limit_ten numeral_eq_enat)
  have 5: "getFileContents files_server small_client ''/a.txt'' [] =
     (Inl (WebDAVError ''Failed to get the file contents: maxContentLength size of 10 exceeded''
             None None None),
      [mk_request small_client ''GET'' ''/a.txt'' [] NoData])"
    using x by (simp add: small_client_limit files_head show_limit_ten numeral_eq_enat)
  have 6: "putFileStream files_server small_client ''/big.bin'' ''0123456789ABCDEF'' None [] =
     (Inr (),
      [mk_request small_client ''HEAD'' ''/big.bin'' [] NoData,
       \<lparr> http_method = ''PUT'', url = ''/big.bin'',
         headers = [(''Content-Type'', ''application/octet-stream'')],
         data = Stream ''0123456789ABCDEF'', maxBodyLength = \<infinity>, maxContentLength = \<infinity> \<rparr>])"
    using t h
    by (simp add: prod_eq_iff files_server_def sample_server_def)
  show ?thesis using 1 2 3 4 5 6 by (simp add: small_client_limit)
qed

text \<open>
  The property as the spec words it fails on the streaming upload: sixteen bytes are
  transmitted by a client configured with a limit of ten.
\<close>

theorem stream_upload_exceeds_limit_counterexample:
  "cfg_maxBodyLength small_client < enat (length ''0123456789ABCDEF'') \<and>
   putFileStream files_server small_client ''/big.bin'' ''0123456789ABCDEF'' (Some True) [] =
     (Inr (),
      [\<lparr> http_method = ''PUT'', url = ''/big.bin'',
         headers = [(''Content-Type'', ''application/octet-stream'')],
         data = Stream ''0123456789ABCDEF'', maxBodyLength = \<infinity>, maxContentLength = \<infinity> \<rparr>])"
  by (simp add: small_client_limit numeral_eq_enat putFileStream_def check_not_exists_def
        scatch_def sbind_def sreturn_def axios_request_def files_server_def sample_server_def
        mk_request_def)

section \<open>Spellings of the namespace prefix\<close>

lemma startsWith_prefix [simp]: "startsWith (p @ n) p"
  by (simp add: startsWith_def)




















lemma truthy_unprefix [simp]: "truthy (unprefix V f v) = truthy v"
  by (cases v) (simp_all add: unprefix_def)


subsection \<open>The collection marker\<close>


lemma bare_resourcetype_undefined [simp]: "bare_resourcetype JUndefined = JUndefined"
  by (simp add: bare_resourcetype_def unprefix_def)




subsection \<open>Property-status blocks\<close>

lemma bare_undefined [simp]:
  "bare_prop JUndefined = JUndefined" "bare_prop (JObj []) = JObj []"
  "bare_propstat JUndefined = JUndefined" "bare_response JUndefined = JUndefined"
  "bare_multistatus JUndefined = JUndefined"
  by (simp_all add: bare_prop_def bare_propstat_def bare_response_def bare_multistatus_def
        unprefix_def content_def)

lemma bare_truthy [simp]:
  "truthy (bare_prop v) = truthy v" "truthy (bare_propstat v) = truthy v"
  "truthy (bare_response v) = truthy v" "truthy (bare_multistatus v) = truthy v"
  by (simp_all add: bare_prop_def bare_propstat_def bare_response_def bare_multistatus_def)

lemma once_simps [simp]:
  "once_resourcetype JUndefined" "once_prop JUndefined" "once_prop (JObj [])"
  "once_propstat JUndefined" "once_response JUndefined" "once_multistatus JUndefined"
  by (simp_all add: once_resourcetype_def once_prop_def once_propstat_def once_response_def
        once_multistatus_def spelled_once_def content_def)






subsection \<open>Choosing the block\<close>









subsection \<open>Response elements\<close>


lemma each_undefined [simp]: "each bare_propstat JUndefined = JUndefined"
  by (simp add: each_def)




subsection \<open>The chains of alternatives\<close>







subsection \<open>The whole document\<close>




lemma truthy_each_response [simp]: "truthy (each bare_response v) = truthy v"
  by (cases v) (simp_all add: each_def)

lemma each_response_undefined [simp]: "each bare_response JUndefined = JUndefined"
  by (simp add: each_def)













end
